theory Spec2Isabelle
  imports Complex_Main "HOL-Library.Word" "HOL-Library.Signed_Division"
begin

unbundle bit_operations_syntax

section \<open>The GDI+ text source of obs-text (plugins/obs-text/gdiplus/obs-text.cpp)\<close>

text \<open>
  A shallow embedding of \<^verbatim>\<open>struct TextSource\<close> and its member functions. Everything the
  translation unit calls but does not define (libobs, GDI, GDI+, the graphics
  subsystem) is a field of the record \<open>env\<close> below or an entry of a call trace.

  Machine types: \<^verbatim>\<open>uint32_t\<close>, \<^verbatim>\<open>DWORD\<close>, \<^verbatim>\<open>int\<close> and \<^verbatim>\<open>LONG\<close> are all \<open>32 word\<close>; a cast
  between them keeps the bit pattern, so it is the identity here, and signedness lives
  in the operations (\<open><s\<close>, \<open>sint\<close>, \<open>LONG_rem\<close> for the signed ones). Signed addition
  wraps around as two's complement does. A \<^verbatim>\<open>float\<close> value is the real number it
  denotes (\<open>real\<close>); the arithmetic of single precision, with its rounding, and the
  conversions between \<^verbatim>\<open>float\<close> and the integer types are operations of the
  environment, as is everything else the machine and the libraries supply. Comparing
  two \<^verbatim>\<open>float\<close> values is comparing the numbers.
\<close>

subsection \<open>Types\<close>

type_synonym uint32_t = "32 word"
type_synonym DWORD = "32 word"
type_synonym LONG = "32 word"
type_synonym int64_t = "64 word"
type_synonym wstring = "16 word list"
type_synonym HFONT = nat
type_synonym gs_texture = nat

datatype Align = Align_Left | Align_Center | Align_Right

datatype VAlign = VAlign_Top | VAlign_Center | VAlign_Bottom

datatype Font = Font HFONT

record RectF =
  X :: real
  Y :: real
  Width :: real
  Height :: real

record SIZE =
  size_cx :: LONG
  size_cy :: LONG

subsection \<open>GDI and GDI+ data\<close>

datatype StringAlignment = StringAlignmentNear | StringAlignmentCenter | StringAlignmentFar

datatype StringFormatFlag =
    StringFormatFlagsDirectionRightToLeft
  | StringFormatFlagsDirectionVertical
  | StringFormatFlagsNoFitBlackBox
  | StringFormatFlagsMeasureTrailingSpaces
  | StringFormatFlagsLineLimit
  | StringFormatFlagsNoClip

datatype StringTrimming = StringTrimmingNone | StringTrimmingWord

record StringFormat =
  FormatFlags :: "StringFormatFlag set"
  Trimming :: StringTrimming
  Alignment :: StringAlignment
  LineAlignment :: StringAlignment

text \<open>\<^verbatim>\<open>StringFormat::GenericTypographic()\<close> of GDI+; \<open>GetStringFormat\<close> overwrites each
  of the four attributes kept here.\<close>

definition GenericTypographic :: StringFormat where
  "GenericTypographic =
     \<lparr>FormatFlags = {StringFormatFlagsLineLimit, StringFormatFlagsNoClip,
                     StringFormatFlagsNoFitBlackBox},
      Trimming = StringTrimmingNone,
      Alignment = StringAlignmentNear, LineAlignment = StringAlignmentNear\<rparr>"

record LOGFONT =
  lfHeight :: "32 word"
  lfWeight :: "32 word"
  lfItalic :: bool
  lfUnderline :: bool
  lfStrikeOut :: bool
  lfQuality :: "8 word"
  lfFaceName :: wstring

text \<open>Constants of the Windows headers (wingdi.h).\<close>

definition FW_DONTCARE :: "32 word" where "FW_DONTCARE = 0"
definition FW_BOLD :: "32 word" where "FW_BOLD = 700"
definition ANTIALIASED_QUALITY :: "8 word" where "ANTIALIASED_QUALITY = 4"
definition LF_FACESIZE :: nat where "LF_FACESIZE = 32"

text \<open>The second argument of the two \<^verbatim>\<open>MeasureString\<close> overloads: a layout rectangle or
  an origin.\<close>

datatype layout = Layout_rect RectF | Layout_origin real real

text \<open>What is drawn into the bitmap, in order. The pixel buffer handed to the texture
  is represented by the list of drawing calls that filled it.\<close>

datatype GraphicsPath = AddString wstring int Font RectF StringFormat

datatype draw_op =
    Clear DWORD
  | FillRectangle DWORD RectF
  | DrawString wstring int "Font option" RectF StringFormat DWORD
  | DrawPath DWORD real GraphicsPath
  | FillPath DWORD GraphicsPath

type_synonym bits = "draw_op list"

text \<open>Calls into the host's graphics subsystem, in the order they are made.\<close>

datatype gs_call =
    Enter_graphics
  | Leave_graphics
  | Texture_destroy gs_texture
  | Texture_create uint32_t uint32_t bits
  | Texture_set_image gs_texture bits uint32_t
  | Reset_blend_state
  | Effect_set_texture gs_texture
  | Draw_sprite gs_texture uint32_t uint32_t uint32_t

text \<open>Executions whose behaviour C++ leaves undefined end in a fault: a member call
  through the null \<^verbatim>\<open>font\<close> pointer (line 446), and \<^verbatim>\<open>wcscpy\<close> of a face name that
  does not fit the \<^verbatim>\<open>lfFaceName\<close> array (line 242).\<close>

datatype fault = NullFontDereference | FaceNameOverrun

subsection \<open>The environment\<close>

text \<open>
  \<^item> \<open>EPSILON\<close>: the constant of graphics/math-defs.h;
  \<^item> \<open>float_add\<close>, \<open>float_sub\<close>, \<open>float_div\<close>: the single-precision \<^verbatim>\<open>+\<close>, \<^verbatim>\<open>-\<close> and \<^verbatim>\<open>/\<close>;
  \<^item> \<open>float_of_LONG\<close>, \<open>float_of_uint32\<close>: the conversions \<^verbatim>\<open>float(n)\<close> of a signed and of an
    unsigned 32-bit integer;
  \<^item> \<open>LONG_of_float\<close>: the conversion \<^verbatim>\<open>LONG(x)\<close> of a \<^verbatim>\<open>float\<close>, whatever the machine yields
    for a value outside the range of \<^verbatim>\<open>LONG\<close>;
  \<^item> \<open>OBS_FONT_BOLD\<close> ... : the font flag bits of obs.h;
  \<^item> \<open>os_utf8_to_wcs\<close>: the wide string libobs decodes from a UTF-8 string;
  \<^item> \<open>os_quick_read_utf8_file\<close>: the contents of a file, \<open>None\<close> (a null pointer) when
    it cannot be read;
  \<^item> \<open>CreateFontIndirect\<close>: the font handle GDI returns, \<open>None\<close> on failure;
  \<^item> \<open>MeasureString\<close>: the bounding box GDI+ leaves in its output argument, given the
    text, its length argument, the font, the layout, the format and the previous
    contents of the output argument (which stay when the call fails);
  \<^item> \<open>gs_texture_create\<close>: the texture the graphics subsystem returns for a width, a
    height and initial contents, \<open>None\<close> on failure.
\<close>

record env =
  EPSILON :: real
  float_add :: "real \<Rightarrow> real \<Rightarrow> real"
  float_sub :: "real \<Rightarrow> real \<Rightarrow> real"
  float_div :: "real \<Rightarrow> real \<Rightarrow> real"
  float_of_LONG :: "LONG \<Rightarrow> real"
  float_of_uint32 :: "uint32_t \<Rightarrow> real"
  LONG_of_float :: "real \<Rightarrow> LONG"
  OBS_FONT_BOLD :: int64_t
  OBS_FONT_ITALIC :: int64_t
  OBS_FONT_UNDERLINE :: int64_t
  OBS_FONT_STRIKEOUT :: int64_t
  os_utf8_to_wcs :: "string \<Rightarrow> wstring"
  os_quick_read_utf8_file :: "string \<Rightarrow> string option"
  CreateFontIndirect :: "LOGFONT \<Rightarrow> HFONT option"
  MeasureString :: "wstring \<Rightarrow> int \<Rightarrow> Font option \<Rightarrow> layout \<Rightarrow> StringFormat \<Rightarrow> RectF \<Rightarrow> RectF"
  gs_texture_create :: "uint32_t \<Rightarrow> uint32_t \<Rightarrow> bits \<Rightarrow> gs_texture option"

subsection \<open>Helpers (lines 74-110)\<close>

text \<open>The \<^verbatim>\<open>clamp\<close> macro, used on \<^verbatim>\<open>LONG\<close> values: the comparisons are signed.\<close>

definition clamp :: "LONG \<Rightarrow> LONG \<Rightarrow> LONG \<Rightarrow> LONG" where
  "clamp val min_val max_val =
     (if val <s min_val then min_val else if max_val <s val then max_val else val)"

definition MIN_SIZE_CX :: LONG where "MIN_SIZE_CX = 32"
definition MIN_SIZE_CY :: LONG where "MIN_SIZE_CY = 32"
definition MAX_SIZE_CX :: LONG where "MAX_SIZE_CX = 8192"
definition MAX_SIZE_CY :: LONG where "MAX_SIZE_CY = 8192"

definition get_alpha_val :: "uint32_t \<Rightarrow> DWORD" where
  "get_alpha_val opacity = push_bit 24 ((opacity * 255 div 100) AND 0xFF)"

text \<open>In C, \<^verbatim>\<open>&\<close> binds tighter than \<^verbatim>\<open>|\<close>.\<close>

definition calc_color :: "uint32_t \<Rightarrow> uint32_t \<Rightarrow> DWORD" where
  "calc_color color opacity = (color AND 0xFFFFFF) OR get_alpha_val opacity"

text \<open>\<^verbatim>\<open>to_wide\<close>: \<^verbatim>\<open>os_utf8_to_wcs\<close> returns length 0 for a null pointer, and the string
  stays empty.\<close>

definition to_wide :: "env \<Rightarrow> string option \<Rightarrow> wstring" where
  "to_wide e utf8 = (case utf8 of None \<Rightarrow> [] | Some s \<Rightarrow> os_utf8_to_wcs e s)"

definition rgb_to_bgr :: "uint32_t \<Rightarrow> uint32_t" where
  "rgb_to_bgr rgb =
     push_bit 16 (rgb AND 0xFF) OR (rgb AND 0xFF00) OR drop_bit 16 (rgb AND 0xFF0000)"

subsection \<open>The text source\<close>

text \<open>The fields of \<^verbatim>\<open>struct TextSource\<close> (lines 155-194), without the host's
  \<^verbatim>\<open>source\<close> pointer, the device context and its \<^verbatim>\<open>Graphics\<close> object. A null pointer
  is \<open>None\<close>.\<close>

record TextSource =
  "text" :: wstring
  tex :: "gs_texture option"
  cx :: uint32_t
  cy :: uint32_t
  hfont :: "HFONT option"
  font :: "Font option"
  read_from_file :: bool
  "file" :: string
  face :: wstring
  face_size :: "32 word"
  color :: uint32_t
  opacity :: uint32_t
  bk_color :: uint32_t
  bk_opacity :: uint32_t
  align :: Align
  valign :: VAlign
  bold :: bool
  italic :: bool
  underline :: bool
  strikeout :: bool
  vertical :: bool
  use_outline :: bool
  outline_size :: real
  outline_color :: uint32_t
  outline_opacity :: uint32_t
  use_extents :: bool
  wrap :: bool
  extents_cx :: uint32_t
  extents_cy :: uint32_t

text \<open>The member initialisers of lines 156-194: the state the constructor leaves
  before the host delivers the first update.\<close>

definition TextSource_new :: TextSource where
  "TextSource_new =
     \<lparr>text = [], tex = None, cx = 0, cy = 0, hfont = None, font = None,
      read_from_file = False, file = [], face = [], face_size = 0,
      color = 0xFFFFFF, opacity = 100, bk_color = 0, bk_opacity = 0,
      align = Align_Left, valign = VAlign_Top,
      bold = False, italic = False, underline = False, strikeout = False,
      vertical = False, use_outline = False, outline_size = 0,
      outline_color = 0, outline_opacity = 100,
      use_extents = False, wrap = False, extents_cx = 0, extents_cy = 0\<rparr>"

subsection \<open>Settings\<close>

text \<open>Modelled from the spec: libobs's \<^verbatim>\<open>obs_data_t\<close> and its accessors are not among the
  sources. Section 6 calls the configuration source a structured settings record with
  string keys, whose values are strings, integers, booleans and the nested font
  object. A key that is absent, or holds a value of another type, reads as the empty
  string, 0, false or the empty object.\<close>

datatype obs_data_item =
    Item_string string
  | Item_int int64_t
  | Item_bool bool
  | Item_obj "(string \<times> obs_data_item) list"

type_synonym obs_data = "(string \<times> obs_data_item) list"

definition obs_data_get_string :: "obs_data \<Rightarrow> string \<Rightarrow> string" where
  "obs_data_get_string s k = (case map_of s k of Some (Item_string v) \<Rightarrow> v | _ \<Rightarrow> [])"

definition obs_data_get_int :: "obs_data \<Rightarrow> string \<Rightarrow> int64_t" where
  "obs_data_get_int s k = (case map_of s k of Some (Item_int v) \<Rightarrow> v | _ \<Rightarrow> 0)"

definition obs_data_get_bool :: "obs_data \<Rightarrow> string \<Rightarrow> bool" where
  "obs_data_get_bool s k = (case map_of s k of Some (Item_bool v) \<Rightarrow> v | _ \<Rightarrow> False)"

definition obs_data_get_obj :: "obs_data \<Rightarrow> string \<Rightarrow> obs_data" where
  "obs_data_get_obj s k = (case map_of s k of Some (Item_obj v) \<Rightarrow> v | _ \<Rightarrow> [])"

text \<open>\<^verbatim>\<open>#define obs_data_get_uint32 (uint32_t)obs_data_get_int\<close> (line 482).\<close>

definition obs_data_get_uint32 :: "obs_data \<Rightarrow> string \<Rightarrow> uint32_t" where
  "obs_data_get_uint32 s k = ucast (obs_data_get_int s k)"

text \<open>The setting keys (lines 26-46).\<close>

abbreviation S_FONT :: string where "S_FONT \<equiv> ''font''"
abbreviation S_USE_FILE :: string where "S_USE_FILE \<equiv> ''read_from_file''"
abbreviation S_FILE :: string where "S_FILE \<equiv> ''file''"
abbreviation S_TEXT :: string where "S_TEXT \<equiv> ''text''"
abbreviation S_COLOR :: string where "S_COLOR \<equiv> ''color''"
abbreviation S_ALIGN :: string where "S_ALIGN \<equiv> ''align''"
abbreviation S_VALIGN :: string where "S_VALIGN \<equiv> ''valign''"
abbreviation S_OPACITY :: string where "S_OPACITY \<equiv> ''opacity''"
abbreviation S_VERTICAL :: string where "S_VERTICAL \<equiv> ''vertical''"
abbreviation S_OUTLINE :: string where "S_OUTLINE \<equiv> ''outline''"
abbreviation S_OUTLINE_SIZE :: string where "S_OUTLINE_SIZE \<equiv> ''outline_size''"
abbreviation S_OUTLINE_COLOR :: string where "S_OUTLINE_COLOR \<equiv> ''outline_color''"
abbreviation S_OUTLINE_OPACITY :: string where "S_OUTLINE_OPACITY \<equiv> ''outline_opacity''"
abbreviation S_ALIGN_LEFT :: string where "S_ALIGN_LEFT \<equiv> ''left''"
abbreviation S_ALIGN_CENTER :: string where "S_ALIGN_CENTER \<equiv> ''center''"
abbreviation S_ALIGN_RIGHT :: string where "S_ALIGN_RIGHT \<equiv> ''right''"
abbreviation S_VALIGN_TOP :: string where "S_VALIGN_TOP \<equiv> ''top''"
abbreviation S_VALIGN_CENTER :: string where "S_VALIGN_CENTER \<equiv> S_ALIGN_CENTER"
abbreviation S_VALIGN_BOTTOM :: string where "S_VALIGN_BOTTOM \<equiv> ''bottom''"

subsection \<open>The remainder and roundf\<close>

text \<open>C's \<^verbatim>\<open>%\<close> on \<^verbatim>\<open>LONG\<close>: the remainder of the division that truncates towards zero,
  with the sign of the dividend.\<close>

definition LONG_rem :: "LONG \<Rightarrow> LONG \<Rightarrow> LONG" where
  "LONG_rem a b = word_of_int (sint a smod sint b)"

text \<open>\<^verbatim>\<open>roundf\<close> of the C library: the nearest integral value, halfway cases away from
  zero. The result is a \<^verbatim>\<open>float\<close> whenever the argument is.\<close>

definition roundf :: "real \<Rightarrow> real" where
  "roundf x = real_of_int (if 0 \<le> x then \<lfloor>x + 1 / 2\<rfloor> else \<lceil>x - 1 / 2\<rceil>)"

subsection \<open>UpdateFont (lines 228-253)\<close>

definition Arial :: wstring where
  "Arial = [0x41, 0x72, 0x69, 0x61, 0x6C]"

definition UpdateFont :: "env \<Rightarrow> TextSource \<Rightarrow> fault + TextSource" where
  "UpdateFont e st =
     (let st = st\<lparr>hfont := None, font := None\<rparr>;
          lf = \<lparr>lfHeight = face_size st,
                lfWeight = (if bold st then FW_BOLD else FW_DONTCARE),
                lfItalic = italic st, lfUnderline = underline st,
                lfStrikeOut = strikeout st, lfQuality = ANTIALIASED_QUALITY,
                lfFaceName = []\<rparr>
      in if face st \<noteq> [] \<and> LF_FACESIZE \<le> length (face st) then Inl FaceNameOverrun
         else
           let st = (if face st \<noteq> []
                     then st\<lparr>hfont := CreateFontIndirect e (lf\<lparr>lfFaceName := face st\<rparr>)\<rparr>
                     else st);
               st = (if hfont st = None
                     then st\<lparr>hfont := CreateFontIndirect e (lf\<lparr>lfFaceName := Arial\<rparr>)\<rparr>
                     else st)
           in Inr (case hfont st of
                     Some h \<Rightarrow> st\<lparr>font := Some (Font h)\<rparr>
                   | None \<Rightarrow> st))"

subsection \<open>GetStringFormat (lines 255-306)\<close>

definition GetStringFormat :: "TextSource \<Rightarrow> StringFormat \<Rightarrow> StringFormat" where
  "GetStringFormat st format =
     (let flags = {StringFormatFlagsNoFitBlackBox, StringFormatFlagsMeasureTrailingSpaces};
          flags = (if vertical st
                   then flags \<union> {StringFormatFlagsDirectionVertical,
                                 StringFormatFlagsDirectionRightToLeft}
                   else flags);
          format = format\<lparr>FormatFlags := flags\<rparr>;
          format = format\<lparr>Trimming := StringTrimmingWord\<rparr>;
          format =
            (case align st of
               Align_Left \<Rightarrow>
                 if vertical st then format\<lparr>LineAlignment := StringAlignmentFar\<rparr>
                 else format\<lparr>Alignment := StringAlignmentNear\<rparr>
             | Align_Center \<Rightarrow>
                 if vertical st then format\<lparr>LineAlignment := StringAlignmentCenter\<rparr>
                 else format\<lparr>Alignment := StringAlignmentCenter\<rparr>
             | Align_Right \<Rightarrow>
                 if vertical st then format\<lparr>LineAlignment := StringAlignmentNear\<rparr>
                 else format\<lparr>Alignment := StringAlignmentFar\<rparr>)
      in case valign st of
           VAlign_Top \<Rightarrow>
             if vertical st then format\<lparr>Alignment := StringAlignmentNear\<rparr>
             else format\<lparr>LineAlignment := StringAlignmentNear\<rparr>
         | VAlign_Center \<Rightarrow>
             if vertical st then format\<lparr>Alignment := StringAlignmentCenter\<rparr>
             else format\<lparr>LineAlignment := StringAlignmentCenter\<rparr>
         | VAlign_Bottom \<Rightarrow>
             if vertical st then format\<lparr>Alignment := StringAlignmentFar\<rparr>
             else format\<lparr>LineAlignment := StringAlignmentFar\<rparr>)"

subsection \<open>CalculateTextSizes (lines 308-384)\<close>

text \<open>Lines 314-345: the measurement. The result is the contents of \<^verbatim>\<open>bounding_box\<close>.\<close>

definition measure_text :: "env \<Rightarrow> TextSource \<Rightarrow> StringFormat \<Rightarrow> RectF \<Rightarrow> RectF" where
  "measure_text e st format bounding_box =
     (if text st \<noteq> [] then
        if use_extents st \<and> wrap st then
          let layout_box = \<lparr>X = 0, Y = 0,
                            Width = float_of_uint32 e (extents_cx st),
                            Height = float_of_uint32 e (extents_cy st)\<rparr>;
              layout_box = (if use_outline st
                            then layout_box
                                   \<lparr>Width := float_sub e (Width layout_box) (outline_size st),
                                    Height := float_sub e (Height layout_box) (outline_size st)\<rparr>
                            else layout_box)
          in MeasureString e (text st) (int (length (text st)) + 1) (font st)
               (Layout_rect layout_box) format bounding_box
        else
          let bounding_box = MeasureString e (text st) (int (length (text st)) + 1) (font st)
                               (Layout_origin 0 0) format bounding_box;
              bounding_box = bounding_box\<lparr>X := 0, Y := 0\<rparr>
          in if use_outline st
             then bounding_box
                    \<lparr>Width := float_add e (Width bounding_box) (outline_size st),
                     Height := float_add e (Height bounding_box) (outline_size st)\<rparr>
             else bounding_box
      else bounding_box)"

text \<open>Lines 347-365: the floor at the font size on the thickness axis, and the
  conversion to integers. The result is \<^verbatim>\<open>bounding_box\<close> and \<^verbatim>\<open>text_size\<close>.\<close>

definition floor_at_face_size :: "env \<Rightarrow> TextSource \<Rightarrow> RectF \<Rightarrow> RectF \<times> SIZE" where
  "floor_at_face_size e st bounding_box =
     (if vertical st then
        if Width bounding_box < float_of_LONG e (face_size st) then
          (bounding_box\<lparr>Width := float_of_LONG e (face_size st)\<rparr>,
           \<lparr>size_cx = face_size st,
            size_cy = LONG_of_float e (float_add e (Height bounding_box) (EPSILON e))\<rparr>)
        else
          (bounding_box,
           \<lparr>size_cx = LONG_of_float e (float_add e (Width bounding_box) (EPSILON e)),
            size_cy = LONG_of_float e (float_add e (Height bounding_box) (EPSILON e))\<rparr>)
      else
        if Height bounding_box < float_of_LONG e (face_size st) then
          (bounding_box\<lparr>Height := float_of_LONG e (face_size st)\<rparr>,
           \<lparr>size_cx = LONG_of_float e (float_add e (Width bounding_box) (EPSILON e)),
            size_cy = face_size st\<rparr>)
        else
          (bounding_box,
           \<lparr>size_cx = LONG_of_float e (float_add e (Width bounding_box) (EPSILON e)),
            size_cy = LONG_of_float e (float_add e (Height bounding_box) (EPSILON e))\<rparr>))"

text \<open>Lines 367-377: the extents.\<close>

definition apply_extents :: "TextSource \<Rightarrow> SIZE \<Rightarrow> SIZE" where
  "apply_extents st text_size =
     (if use_extents st then
        if wrap st then
          text_size\<lparr>size_cx := extents_cx st, size_cy := extents_cy st\<rparr>
        else
          if size_cx text_size <s extents_cx st then
            text_size\<lparr>size_cx := extents_cx st\<rparr>
          else if size_cy text_size <s extents_cy st then
            text_size\<lparr>size_cy := extents_cy st\<rparr>
          else text_size
      else text_size)"

text \<open>Lines 379-380: \<^verbatim>\<open>v += v % 2\<close>.\<close>

definition round_even :: "LONG \<Rightarrow> LONG" where
  "round_even v = v + LONG_rem v 2"

definition CalculateTextSizes ::
  "env \<Rightarrow> TextSource \<Rightarrow> StringFormat \<Rightarrow> RectF \<Rightarrow> RectF \<times> SIZE" where
  "CalculateTextSizes e st format bounding_box =
     (let bounding_box = measure_text e st format bounding_box;
          (bounding_box, text_size) = floor_at_face_size e st bounding_box;
          text_size = apply_extents st text_size;
          text_size = text_size\<lparr>size_cx := round_even (size_cx text_size)\<rparr>;
          text_size = text_size\<lparr>size_cy := round_even (size_cy text_size)\<rparr>;
          text_size = text_size\<lparr>size_cx := clamp (size_cx text_size) MIN_SIZE_CX MAX_SIZE_CX\<rparr>;
          text_size = text_size\<lparr>size_cy := clamp (size_cy text_size) MIN_SIZE_CY MAX_SIZE_CY\<rparr>
      in (bounding_box, text_size))"

subsection \<open>RenderOutlineText and RenderText (lines 386-480)\<close>

definition RenderOutlineText :: "TextSource \<Rightarrow> GraphicsPath \<Rightarrow> DWORD \<Rightarrow> draw_op list" where
  "RenderOutlineText st path brush =
     (let outline_rgba = calc_color (outline_color st) (outline_opacity st)
      in [DrawPath outline_rgba (outline_size st) path, FillPath brush path])"

definition Offset :: "RectF \<Rightarrow> real \<Rightarrow> real \<Rightarrow> RectF" where
  "Offset box dx dy = box\<lparr>X := X box + dx, Y := Y box + dy\<rparr>"

text \<open>Lines 416-431: the background.\<close>

definition draw_background :: "env \<Rightarrow> TextSource \<Rightarrow> RectF \<Rightarrow> SIZE \<Rightarrow> draw_op list" where
  "draw_background e st box size' =
     (let full_bk_color = bk_color st AND 0xFFFFFF;
          full_bk_color = (if text st \<noteq> [] \<or> use_extents st
                           then full_bk_color OR get_alpha_val (bk_opacity st)
                           else full_bk_color)
      in if (Width box < float_of_LONG e (size_cx size') \<or>
             Height box < float_of_LONG e (size_cy size')) \<and> \<not> use_extents st
         then [Clear 0, FillRectangle full_bk_color box]
         else [Clear full_bk_color])"

text \<open>Lines 437-459: the glyphs. A newline is appended to the text for drawing and
  removed again afterwards.\<close>

definition draw_text ::
  "env \<Rightarrow> TextSource \<Rightarrow> RectF \<Rightarrow> StringFormat \<Rightarrow> DWORD \<Rightarrow>
     fault + TextSource \<times> draw_op list" where
  "draw_text e st box format brush =
     (if text st \<noteq> [] then
        let st = st\<lparr>text := text st @ [0x0A]\<rparr>
        in if use_outline st then
             (case font st of
                None \<Rightarrow> Inl NullFontDereference
              | Some f \<Rightarrow>
                  let box = Offset box (float_div e (outline_size st) 2)
                                       (float_div e (outline_size st) 2);
                      path = AddString (text st) (int (length (text st))) f box format
                  in Inr (st\<lparr>text := butlast (text st)\<rparr>, RenderOutlineText st path brush))
           else
             Inr (st\<lparr>text := butlast (text st)\<rparr>,
                  [DrawString (text st) (int (length (text st))) (font st) box format brush])
      else Inr (st, []))"

text \<open>Lines 461-479: the texture.\<close>

definition sync_texture ::
  "env \<Rightarrow> TextSource \<Rightarrow> SIZE \<Rightarrow> bits \<Rightarrow> TextSource \<times> gs_call list" where
  "sync_texture e st size' bits =
     (if tex st = None \<or> cx st \<noteq> size_cx size' \<or> cy st \<noteq> size_cy size' then
        (st\<lparr>tex := gs_texture_create e (size_cx size') (size_cy size') bits,
            cx := size_cx size', cy := size_cy size'\<rparr>,
         [Enter_graphics] @
         (case tex st of Some t \<Rightarrow> [Texture_destroy t] | None \<Rightarrow> []) @
         [Texture_create (size_cx size') (size_cy size') bits, Leave_graphics])
      else
        (case tex st of
           Some t \<Rightarrow>
             (st, [Enter_graphics, Texture_set_image t bits (size_cx size' * 4), Leave_graphics])
         | None \<Rightarrow> (st, [])))"

definition zero_RectF :: RectF where
  "zero_RectF = \<lparr>X = 0, Y = 0, Width = 0, Height = 0\<rparr>"

definition RenderText :: "env \<Rightarrow> TextSource \<Rightarrow> fault + TextSource \<times> gs_call list" where
  "RenderText e st =
     (let format = GetStringFormat st GenericTypographic;
          (box, size') = CalculateTextSizes e st format zero_RectF;
          brush = get_alpha_val (opacity st) OR (color st AND 0xFFFFFF);
          background = draw_background e st box size'
      in case draw_text e st box format brush of
           Inl f \<Rightarrow> Inl f
         | Inr (st, glyphs) \<Rightarrow> Inr (sync_texture e st size' (background @ glyphs)))"

subsection \<open>Update and Render (lines 484-574)\<close>

text \<open>Lines 486-554: the settings are read and the fields assigned.\<close>

definition assign_settings :: "env \<Rightarrow> obs_data \<Rightarrow> TextSource \<Rightarrow> TextSource" where
  "assign_settings e s st =
     (let new_text = obs_data_get_string s S_TEXT;
          font_obj = obs_data_get_obj s S_FONT;
          align_str = obs_data_get_string s S_ALIGN;
          valign_str = obs_data_get_string s S_VALIGN;
          new_color = obs_data_get_uint32 s S_COLOR;
          new_opacity = obs_data_get_uint32 s S_OPACITY;
          new_vertical = obs_data_get_bool s S_VERTICAL;
          new_outline = obs_data_get_bool s S_OUTLINE;
          new_o_color = obs_data_get_uint32 s S_OUTLINE_COLOR;
          new_o_opacity = obs_data_get_uint32 s S_OUTLINE_OPACITY;
          new_o_size = obs_data_get_uint32 s S_OUTLINE_SIZE;
          new_use_file = obs_data_get_bool s S_USE_FILE;
          new_file = obs_data_get_string s S_FILE;
          font_face = obs_data_get_string font_obj ''face'';
          font_size = obs_data_get_int font_obj ''size'';
          font_flags = obs_data_get_int font_obj ''flags'';
          new_face = to_wide e (Some font_face);
          new_color = rgb_to_bgr new_color;
          new_o_color = rgb_to_bgr new_o_color;
          st = st\<lparr>face := new_face,
                  face_size := ucast font_size,
                  bold := (font_flags AND OBS_FONT_BOLD e \<noteq> 0),
                  italic := (font_flags AND OBS_FONT_ITALIC e \<noteq> 0),
                  underline := (font_flags AND OBS_FONT_UNDERLINE e \<noteq> 0),
                  strikeout := (font_flags AND OBS_FONT_STRIKEOUT e \<noteq> 0),
                  color := new_color,
                  opacity := new_opacity,
                  vertical := new_vertical,
                  read_from_file := new_use_file\<rparr>;
          st = (if read_from_file st
                then st\<lparr>file := new_file,
                        text := to_wide e (os_quick_read_utf8_file e new_file)\<rparr>
                else st\<lparr>text := to_wide e (Some new_text)\<rparr>);
          st = (if text st \<noteq> []
                then (let st = st\<lparr>text := text st @ [0x0A]\<rparr>
                      in st\<lparr>text := butlast (text st)\<rparr>)
                else st);
          st = st\<lparr>use_outline := new_outline,
                  outline_color := new_o_color,
                  outline_opacity := new_o_opacity,
                  outline_size := roundf (float_of_uint32 e new_o_size)\<rparr>;
          st = (if align_str = S_ALIGN_CENTER then st\<lparr>align := Align_Center\<rparr>
                else if align_str = S_ALIGN_RIGHT then st\<lparr>align := Align_Right\<rparr>
                else st\<lparr>align := Align_Left\<rparr>)
      in if valign_str = S_VALIGN_CENTER then st\<lparr>valign := VAlign_Center\<rparr>
         else if valign_str = S_VALIGN_BOTTOM then st\<lparr>valign := VAlign_Bottom\<rparr>
         else st\<lparr>valign := VAlign_Top\<rparr>)"

definition Update :: "env \<Rightarrow> obs_data \<Rightarrow> TextSource \<Rightarrow> fault + TextSource \<times> gs_call list" where
  "Update e s st =
     (case UpdateFont e (assign_settings e s st) of
        Inl f \<Rightarrow> Inl f
      | Inr st \<Rightarrow> RenderText e st)"

definition Render :: "TextSource \<Rightarrow> gs_call list" where
  "Render st =
     (case tex st of
        None \<Rightarrow> []
      | Some t \<Rightarrow> [Reset_blend_state, Effect_set_texture t, Draw_sprite t 0 (cx st) (cy st)])"

text \<open>The callbacks registered in \<^verbatim>\<open>obs_module_load\<close> (lines 702-709).\<close>

definition get_width :: "TextSource \<Rightarrow> uint32_t" where
  "get_width st = cx st"

definition get_height :: "TextSource \<Rightarrow> uint32_t" where
  "get_height st = cy st"

text \<open>The states the host can reach: the constructor's state, then any number of
  updates, each in the environment of its moment. A run stops at the first fault.\<close>

fun run_updates :: "(env \<times> obs_data) list \<Rightarrow> TextSource \<Rightarrow> fault + TextSource" where
  "run_updates [] st = Inr st"
| "run_updates ((e, s) # us) st =
     (case Update e s st of
        Inl f \<Rightarrow> Inl f
      | Inr (st', calls) \<Rightarrow> run_updates us st')"

text \<open>A sample environment, for evaluating the definitions on concrete inputs:
  arithmetic without rounding error, a conversion to \<^verbatim>\<open>LONG\<close> that truncates towards
  zero and yields the least \<^verbatim>\<open>LONG\<close> outside its range, the decoder of 7-bit ASCII
  text (where a UTF-8 byte is its code point), no readable file, a font handle for
  every request, a measurement that reports 7 by 12 pixels for each character of a
  single line, and a texture for every request. It is used below at small integral
  sizes only, where single precision yields the same integers; the theorems hold for
  every environment.\<close>

definition sample_env :: env where
  "sample_env =
     \<lparr>EPSILON = 1 / 10000,
      float_add = (+), float_sub = (-), float_div = (/),
      float_of_LONG = (\<lambda>n. real_of_int (sint n)),
      float_of_uint32 = (\<lambda>n. real (unat n)),
      LONG_of_float = (\<lambda>x. if - 2147483648 \<le> x \<and> x < 2147483648
                            then word_of_int (if 0 \<le> x then \<lfloor>x\<rfloor> else \<lceil>x\<rceil>)
                            else 0x80000000),
      OBS_FONT_BOLD = 1, OBS_FONT_ITALIC = 2, OBS_FONT_UNDERLINE = 4, OBS_FONT_STRIKEOUT = 8,
      os_utf8_to_wcs = map (\<lambda>c. of_nat (of_char c)),
      os_quick_read_utf8_file = (\<lambda>path. None),
      CreateFontIndirect = (\<lambda>lf. Some 1),
      MeasureString = (\<lambda>text len font layout format box.
        \<lparr>X = 0, Y = 0, Width = 7 * real (length text), Height = 12\<rparr>),
      gs_texture_create = (\<lambda>w h bits. Some 1)\<rparr>"

text \<open>The state, the format and the drawing calls that the sample environment yields
  for the typed text \<open>Hi\<close> with every other setting absent, in a box of height \<open>h\<close>.\<close>

definition sample_format :: StringFormat where
  "sample_format =
     \<lparr>FormatFlags = {StringFormatFlagsNoFitBlackBox, StringFormatFlagsMeasureTrailingSpaces},
      Trimming = StringTrimmingWord,
      Alignment = StringAlignmentNear, LineAlignment = StringAlignmentNear\<rparr>"

definition sample_bits :: "real \<Rightarrow> bits" where
  "sample_bits h =
     [Clear 0, FillRectangle 0 \<lparr>X = 0, Y = 0, Width = 14, Height = h\<rparr>,
      DrawString [0x48, 0x69, 0x0A] 3 (Some (Font 1)) \<lparr>X = 0, Y = 0, Width = 14, Height = h\<rparr>
        sample_format 0]"

definition sample_state :: TextSource where
  "sample_state =
     \<lparr>text = [0x48, 0x69], tex = Some 1, cx = 32, cy = 32, hfont = Some 1,
      font = Some (Font 1), read_from_file = False, file = [], face = [], face_size = 0,
      color = 0, opacity = 0, bk_color = 0, bk_opacity = 0,
      align = Align_Left, valign = VAlign_Top,
      bold = False, italic = False, underline = False, strikeout = False,
      vertical = False, use_outline = False, outline_size = 0,
      outline_color = 0, outline_opacity = 0,
      use_extents = False, wrap = False, extents_cx = 0, extents_cy = 0\<rparr>"

text \<open>The canvas size \<open>RenderText\<close> computes in a state (lines 407-408).\<close>

definition canvas_size :: "env \<Rightarrow> TextSource \<Rightarrow> SIZE" where
  "canvas_size e st = snd (CalculateTextSizes e st (GetStringFormat st GenericTypographic) zero_RectF)"

text \<open>The keys \<open>Update\<close> reads from its settings (lines 486-498).\<close>

definition settings_keys :: "string list" where
  "settings_keys =
     [S_TEXT, S_FONT, S_ALIGN, S_VALIGN, S_COLOR, S_OPACITY, S_VERTICAL, S_OUTLINE,
      S_OUTLINE_COLOR, S_OUTLINE_OPACITY, S_OUTLINE_SIZE, S_USE_FILE, S_FILE]"

text \<open>Names for two intermediate values of \<open>CalculateTextSizes\<close>: \<^verbatim>\<open>text_size\<close> after
  line 365 (the measured size) and after line 377 (the size before the even rounding
  and the clamp).\<close>

definition measured_size :: "env \<Rightarrow> TextSource \<Rightarrow> StringFormat \<Rightarrow> RectF \<Rightarrow> SIZE" where
  "measured_size e st format bounding_box =
     snd (floor_at_face_size e st (measure_text e st format bounding_box))"

definition size_before_rounding :: "env \<Rightarrow> TextSource \<Rightarrow> StringFormat \<Rightarrow> RectF \<Rightarrow> SIZE" where
  "size_before_rounding e st format bounding_box =
     apply_extents st (measured_size e st format bounding_box)"

text \<open>The canvas size an update computes: that of \<open>RenderText\<close> in the state that
  \<open>assign_settings\<close> and \<open>UpdateFont\<close> leave; none when \<open>UpdateFont\<close> faults.\<close>

definition update_canvas :: "env \<Rightarrow> obs_data \<Rightarrow> TextSource \<Rightarrow> SIZE option" where
  "update_canvas e s st =
     (case UpdateFont e (assign_settings e s st) of
        Inl f \<Rightarrow> None
      | Inr p \<Rightarrow> Some (canvas_size e p))"

section \<open>Properties\<close>

subsection \<open>Bytes and bits\<close>

lemma mask_ff: "(0xFF::32 word) = mask 8"
  by (simp add: mask_eq_exp_minus_1)

lemma mask_ff00: "(0xFF00::32 word) = push_bit 8 (mask 8)"
  by (simp add: mask_eq_exp_minus_1)

lemma mask_ff0000: "(0xFF0000::32 word) = push_bit 16 (mask 8)"
  by (simp add: mask_eq_exp_minus_1)

lemma mask_24: "(0xFFFFFF::32 word) = mask 24"
  by (simp add: mask_eq_exp_minus_1)

text \<open>Bit \<open>n\<close> of the permuted colour: the low byte comes from bits 16-23, the middle byte
  stays, the third byte comes from bits 0-7, and the top byte is clear.\<close>

lemma rgb_bits:
  "bit (rgb_to_bgr x) n \<longleftrightarrow>
     (n < 8 \<and> bit x (n + 16)) \<or> (8 \<le> n \<and> n < 16 \<and> bit x n) \<or>
     (16 \<le> n \<and> n < 24 \<and> bit x (n - 16))"
  unfolding rgb_to_bgr_def mask_ff mask_ff00 mask_ff0000
  by (auto simp: bit_simps add.commute)

lemma byte_cases:
  fixes n :: nat
  obtains "n < 8" | "8 \<le> n" "n < 16" | "16 \<le> n" "n < 24" | "24 \<le> n"
  by linarith

lemma rgb_to_bgr_twice: "rgb_to_bgr (rgb_to_bgr x) = x AND 0xFFFFFF"
  unfolding mask_24
proof (rule bit_word_eqI)
  fix n :: nat
  show "bit (rgb_to_bgr (rgb_to_bgr x)) n \<longleftrightarrow> bit (x AND mask 24) n"
    by (cases n rule: byte_cases) (auto simp add: rgb_bits bit_simps)
qed

lemma rgb_to_bgr_bytes:
  fixes r g b :: "8 word"
  shows "rgb_to_bgr (push_bit 16 (ucast r) OR push_bit 8 (ucast g) OR ucast b) =
         push_bit 16 (ucast b) OR push_bit 8 (ucast g) OR ucast r"
proof (rule bit_word_eqI)
  fix n :: nat
  show "bit (rgb_to_bgr (push_bit 16 (ucast r) OR push_bit 8 (ucast g) OR ucast b)) n \<longleftrightarrow>
        bit (push_bit 16 (ucast b) OR push_bit 8 (ucast g) OR (ucast r :: 32 word)) n"
    by (cases n rule: byte_cases) (auto simp add: rgb_bits bit_simps dest: bit_imp_le_length)
qed

text \<open>Below 101 the product with 255 does not wrap and the quotient fits a byte.\<close>

lemma alpha_quotient:
  assumes "x \<le> (100 :: 32 word)"
  shows "unat (x * 255 div 100) = unat x * 255 div 100"
    and "(x * 255 div 100) AND mask 8 = x * 255 div 100"
proof -
  from assms have ux: "unat x \<le> 100"
    by (simp add: word_le_nat_alt)
  have m: "unat (x * 255) = unat x * 255"
    using ux by (simp add: unat_word_ariths)
  show d: "unat (x * 255 div 100) = unat x * 255 div 100"
    by (simp add: unat_div m)
  have "unat (x * 255 div 100) < 2 ^ 8"
    using ux d by simp
  then have "x * 255 div 100 < 2 ^ 8"
    by (simp add: word_less_nat_alt)
  then show "(x * 255 div 100) AND mask 8 = x * 255 div 100"
    by (rule less_mask_eq)
qed

lemma drop_push_byte:
  fixes y :: "32 word"
  assumes "y AND mask 8 = y"
  shows "drop_bit 24 (push_bit 24 y) = y"
proof (rule bit_word_eqI)
  fix n :: nat
  have "bit y n \<Longrightarrow> n < 8"
    using assms by (metis bit_and_iff bit_mask_iff)
  then show "bit (drop_bit 24 (push_bit 24 y)) n \<longleftrightarrow> bit y n"
    by (auto simp add: bit_simps)
qed

subsection \<open>Even rounding and the clamp\<close>

lemma even_sint_iff32: "even (sint (v::32 word)) \<longleftrightarrow> even v"
  using bit_sint_iff [of v 0] by (simp add: bit_0)

lemma even_smod2: "even ((k::int) smod 2) \<longleftrightarrow> even k"
  by (auto simp add: smod_int_alt_def sgn_if)

lemma even_LONG_rem: "even (LONG_rem v 2) \<longleftrightarrow> even v"
  by (simp add: LONG_rem_def even_of_int_iff even_smod2 even_sint_iff32)

lemma even_round_even: "even (round_even v)"
  by (simp add: round_even_def even_LONG_rem)

lemma clamp_cases: "clamp v 32 8192 = 32 \<or> clamp v 32 8192 = 8192 \<or> clamp v 32 8192 = v"
  by (simp add: clamp_def)

lemma clamp_range: "32 \<le> sint (clamp v 32 8192) \<and> sint (clamp v 32 8192) \<le> 8192"
  by (simp add: clamp_def word_sless_alt)

lemma clamp_id: "32 \<le> sint v \<Longrightarrow> sint v \<le> 8192 \<Longrightarrow> clamp v 32 8192 = v"
  by (simp add: clamp_def word_sless_alt)

lemma even_clamp: "even v \<Longrightarrow> even (clamp v 32 8192)"
  using clamp_cases [of v] by auto

lemma quantized_even_in_range:
  "even (sint (clamp (round_even v) 32 8192)) \<and>
   32 \<le> sint (clamp (round_even v) 32 8192) \<and> sint (clamp (round_even v) 32 8192) \<le> 8192"
  using clamp_range [of "round_even v"] even_clamp [OF even_round_even, of v]
  by (simp add: even_sint_iff32)

lemma round_even_even:
  assumes "even (sint v)"
  shows "round_even v = v"
proof -
  have "sint v smod 2 = 0"
    using assms by (auto simp add: smod_int_alt_def sgn_if)
  then show ?thesis
    by (simp add: round_even_def LONG_rem_def)
qed

lemma SIZE_make: "r\<lparr>size_cx := a, size_cy := b\<rparr> = \<lparr>size_cx = a, size_cy = b\<rparr>"
  by (cases r) simp

lemma CalculateTextSizes_size:
  "snd (CalculateTextSizes e st format bounding_box) =
     \<lparr>size_cx = clamp (round_even (size_cx (size_before_rounding e st format bounding_box))) 32 8192,
      size_cy = clamp (round_even (size_cy (size_before_rounding e st format bounding_box))) 32 8192\<rparr>"
  by (simp add: CalculateTextSizes_def size_before_rounding_def measured_size_def Let_def split_beta
      MIN_SIZE_CX_def MIN_SIZE_CY_def MAX_SIZE_CX_def MAX_SIZE_CY_def)

lemma round_even_nonneg_odd:
  assumes "odd (sint v)" "0 \<le> sint v"
  shows "round_even v = v + 1"
proof -
  have "sint v smod 2 = 1"
    using assms by (auto simp add: smod_int_alt_def sgn_if odd_iff_mod_2_eq_one)
  then show ?thesis
    by (simp add: round_even_def LONG_rem_def)
qed

lemma sint_bounds32: "- 2147483648 \<le> sint (v::32 word) \<and> sint v < 2147483648"
  using sint_ge [of v] sint_lt [of v] by simp

lemma round_even_neg_odd:
  assumes "odd (sint v)" "sint v < 0"
  shows "round_even v = v - 1"
proof -
  have "\<bar>sint v\<bar> mod 2 = 1"
    using assms(1) by presburger
  then have "sint v smod 2 = - 1"
    using assms(2) by (simp add: smod_int_alt_def sgn_if)
  then show ?thesis
    by (simp add: round_even_def LONG_rem_def)
qed

lemma clamp_below: "sint v < 32 \<Longrightarrow> clamp v 32 8192 = 32"
  by (simp add: clamp_def word_sless_alt)

lemma clamp_round_even:
  "clamp (round_even v) 32 8192 = clamp (if odd (sint v) then v + 1 else v) 32 8192"
proof (cases "odd (sint v)")
  case False
  then show ?thesis by (simp add: round_even_even)
next
  case odd: True
  show ?thesis
  proof (cases "0 \<le> sint v")
    case True
    with odd show ?thesis by (simp add: round_even_nonneg_odd)
  next
    case False
    then have neg: "sint v < 0" by simp
    have "sint v \<noteq> - 2147483648"
      using odd by auto
    with sint_bounds32 [of v] have lo: "- 2147483648 < sint v" by linarith
    have "sint (v + 1) = sint v + 1"
      using neg lo by (simp add: sint_word_ariths signed_take_bit_int_eq_self)
    moreover have "sint (v - 1) = sint v - 1"
      using neg lo by (simp add: sint_word_ariths signed_take_bit_int_eq_self)
    ultimately have "clamp (v + 1) 32 8192 = 32" "clamp (v - 1) 32 8192 = 32"
      using neg by (simp_all add: clamp_below)
    with odd neg show ?thesis
      by (simp add: round_even_neg_odd)
  qed
qed

text \<open>The signed reading of a 32-bit value, and the dimension that the even rounding
  and the clamp make of an unsigned one.\<close>

lemma sint_unat32:
  "sint (x::32 word) =
     (if unat x < 2147483648 then int (unat x) else int (unat x) - 4294967296)"
proof -
  define k where "k = uint x"
  have s: "sint x = (k + 2147483648) mod 4294967296 - 2147483648"
    unfolding k_def using int_word_sint [of "uint x", where ?'a = 32] by simp
  have b: "0 \<le> k" "k < 4294967296"
    unfolding k_def using uint_lt2p [of x] by simp_all
  have u: "int (unat x) = k"
    unfolding k_def by simp
  have c: "unat x < 2147483648 \<longleftrightarrow> k < 2147483648"
    using u by linarith
  have m: "(k + 2147483648) mod 4294967296 =
             (if k < 2147483648 then k + 2147483648 else k - 2147483648)"
  proof (cases "k < 2147483648")
    case True
    with b show ?thesis by simp
  next
    case False
    have "(k + 2147483648) mod 4294967296 = (k + 2147483648 - 4294967296) mod 4294967296"
      by (simp only: minus_mod_self2)
    also have "\<dots> = k - 2147483648"
      using False b by simp
    finally show ?thesis
      using False by simp
  qed
  show ?thesis
    unfolding s m u c by simp
qed


lemma clamp_int: "clamp w 32 8192 = word_of_int (max 32 (min 8192 (sint w)))"
  by (simp add: clamp_def word_sless_alt max_def min_def)

lemma round_even_int: "round_even v = word_of_int (sint v + sint v smod 2)"
  by (simp add: round_even_def LONG_rem_def)

lemma sint_word_of_int32:
  "- 2147483648 \<le> k \<Longrightarrow> k < 2147483648 \<Longrightarrow> sint (word_of_int k :: 32 word) = k"
  by (simp add: sint_sbintrunc' signed_take_bit_int_eq_self)

lemma smod2_cases:
  "(k::int) smod 2 = (if even k then 0 else if 0 \<le> k then 1 else - 1)"
proof -
  have "odd k \<Longrightarrow> \<bar>k\<bar> mod 2 = 1"
    by presburger
  then show ?thesis
    by (auto simp add: smod_int_alt_def sgn_if)
qed

lemma extent_dimension:
  fixes x :: "32 word"
  shows "clamp (round_even x) 32 8192 =
           (if unat x < 32 then 32
            else if unat x \<le> 8192 then (if odd (unat x) then x + 1 else x)
            else if unat x < 2147483647 then 8192
            else 32)"
proof -
  define n where "n = unat x"
  have x: "x = word_of_int (int n)"
    unfolding n_def by simp
  have s: "sint x = (if n < 2147483648 then int n else int n - 4294967296)"
    unfolding n_def by (rule sint_unat32)
  have n: "n < 4294967296"
    unfolding n_def using unsigned_less [of x, where ?'a = nat] by simp
  have goal: "clamp (round_even x) 32 8192 =
           (if n < 32 then 32
            else if n \<le> 8192 then (if odd n then x + 1 else x)
            else if n < 2147483647 then 8192
            else 32)"
  proof -
    consider "n < 2147483647" | "n = 2147483647" | "2147483648 \<le> n"
      by linarith
    then show ?thesis
    proof cases
      case 1
      then have k: "sint x = int n"
        by (simp add: s)
      have r: "sint (round_even x) = int n + (if odd n then 1 else 0)"
        unfolding round_even_int k smod2_cases using 1
        by (subst sint_word_of_int32) auto
      show ?thesis
      proof (cases "odd n")
        case True
        then have xp: "x + 1 = word_of_int (int n + 1)"
          by (subst x) simp
        have "n \<noteq> 8192" "n \<noteq> 32"
          using True by auto
        then consider "n < 31" | "n = 31" | "32 < n" "n < 8191" | "n = 8191" | "8192 < n"
          by linarith
        then show ?thesis
          unfolding clamp_int r using True 1 xp
          by cases (simp_all add: max_def min_def)
      next
        case False
        with 1 x show ?thesis
          unfolding clamp_int r by (auto simp add: max_def min_def)
      qed
    next
      case 2
      then have "x = 2147483647"
        by (subst x) simp
      with 2 show ?thesis
        by (simp add: clamp_def round_even_def LONG_rem_def smod_int_alt_def)
    next
      case 3
      then have k: "sint x = int n - 4294967296"
        by (simp add: s)
      with 3 n have neg: "sint x < 0" and lo: "- 2147483648 \<le> sint x"
        by linarith+
      have "odd (sint x) \<Longrightarrow> sint x \<noteq> - 2147483648"
        by auto
      with lo have lo': "odd (sint x) \<Longrightarrow> - 2147483648 < sint x"
        by linarith
      with neg lo have "sint (round_even x) = sint x + sint x smod 2"
        unfolding round_even_int smod2_cases
        by (subst sint_word_of_int32) auto
      with neg have "sint (round_even x) < 32"
        by (auto simp add: smod2_cases split: if_splits)
      with 3 show ?thesis
        unfolding clamp_int by (simp add: max_def min_def)
    qed
  qed
  then show ?thesis
    unfolding n_def .
qed

lemma extent_dimension_exact:
  fixes x :: "32 word"
  shows "clamp (round_even x) 32 8192 = x \<longleftrightarrow>
           even (unat x) \<and> 32 \<le> unat x \<and> unat x \<le> 8192"
proof -
  have a: "unat x < 32 \<Longrightarrow> x \<noteq> 32" and b: "8192 < unat x \<Longrightarrow> x \<noteq> 8192"
    and c: "\<not> unat x < 2147483647 \<Longrightarrow> x \<noteq> 32"
    by auto
  have d: "x + 1 \<noteq> x"
    by simp
  show ?thesis
    unfolding extent_dimension using a b c d by (auto simp add: eq_commute [of _ x])
qed

subsection \<open>What RenderText, UpdateFont and Update change\<close>

lemma draw_text_Inr:
  "draw_text e st box format brush = Inr (st', ops) \<Longrightarrow> st' = st"
  by (auto simp add: draw_text_def Let_def split: if_splits option.splits)

lemma draw_text_fault:
  "isl (draw_text e st box format brush) \<longleftrightarrow> text st \<noteq> [] \<and> use_outline st \<and> font st = None"
  by (auto simp add: draw_text_def Let_def split: if_splits option.splits)

lemma RenderText_unfold:
  "RenderText e st =
     (case draw_text e st (fst (CalculateTextSizes e st (GetStringFormat st GenericTypographic) zero_RectF))
             (GetStringFormat st GenericTypographic)
             (get_alpha_val (opacity st) OR (color st AND 0xFFFFFF)) of
        Inl f \<Rightarrow> Inl f
      | Inr r \<Rightarrow>
          Inr (sync_texture e (fst r) (canvas_size e st)
                (draw_background e st
                   (fst (CalculateTextSizes e st (GetStringFormat st GenericTypographic) zero_RectF))
                   (canvas_size e st) @ snd r)))"
  by (simp add: RenderText_def canvas_size_def Let_def split_beta case_prod_beta
      split: sum.splits)

lemma RenderText_Inr:
  assumes "RenderText e st = Inr (st', calls)"
  shows "\<exists>bits. (st', calls) = sync_texture e st (canvas_size e st) bits"
proof -
  let ?d = "draw_text e st (fst (CalculateTextSizes e st (GetStringFormat st GenericTypographic) zero_RectF))
             (GetStringFormat st GenericTypographic)
             (get_alpha_val (opacity st) OR (color st AND 0xFFFFFF))"
  from assms obtain r where d: "?d = Inr r"
    by (cases ?d) (simp_all add: RenderText_unfold)
  then have "fst r = st"
    using draw_text_Inr [of e st _ _ _ "fst r" "snd r"] by simp
  with assms d have "(st', calls) = sync_texture e st (canvas_size e st)
      (draw_background e st
         (fst (CalculateTextSizes e st (GetStringFormat st GenericTypographic) zero_RectF))
         (canvas_size e st) @ snd r)"
    by (simp add: RenderText_unfold)
  then show ?thesis ..
qed

lemma RenderText_fault:
  "isl (RenderText e st) \<longleftrightarrow> text st \<noteq> [] \<and> use_outline st \<and> font st = None"
proof -
  let ?d = "draw_text e st (fst (CalculateTextSizes e st (GetStringFormat st GenericTypographic) zero_RectF))
             (GetStringFormat st GenericTypographic)
             (get_alpha_val (opacity st) OR (color st AND 0xFFFFFF))"
  have "isl (RenderText e st) = isl ?d"
    by (cases ?d) (simp_all add: RenderText_unfold)
  then show ?thesis
    by (simp only: draw_text_fault)
qed

lemma sync_texture_frame:
  "\<exists>t. fst (sync_texture e st sz bits) = st\<lparr>tex := t, cx := size_cx sz, cy := size_cy sz\<rparr>"
proof (cases "tex st = None \<or> cx st \<noteq> size_cx sz \<or> cy st \<noteq> size_cy sz")
  case True
  then have "fst (sync_texture e st sz bits) =
      st\<lparr>tex := gs_texture_create e (size_cx sz) (size_cy sz) bits, cx := size_cx sz, cy := size_cy sz\<rparr>"
    by (simp add: sync_texture_def)
  then show ?thesis ..
next
  case False
  then have "fst (sync_texture e st sz bits) = st" and "st = st\<lparr>tex := tex st, cx := size_cx sz, cy := size_cy sz\<rparr>"
    by (auto simp add: sync_texture_def)
  then have "fst (sync_texture e st sz bits) = st\<lparr>tex := tex st, cx := size_cx sz, cy := size_cy sz\<rparr>"
    by simp
  then show ?thesis ..
qed

lemma RenderText_frame:
  assumes "RenderText e st = Inr (st', calls)"
  shows "\<exists>t. st' = st\<lparr>tex := t, cx := size_cx (canvas_size e st), cy := size_cy (canvas_size e st)\<rparr>"
proof -
  from RenderText_Inr [OF assms] obtain bits
    where "(st', calls) = sync_texture e st (canvas_size e st) bits" ..
  then have "fst (st', calls) = fst (sync_texture e st (canvas_size e st) bits)"
    by (rule arg_cong)
  then have "st' = fst (sync_texture e st (canvas_size e st) bits)"
    by simp
  then show ?thesis
    using sync_texture_frame [of e st "canvas_size e st" bits] by simp
qed

lemma UpdateFont_frame:
  assumes "UpdateFont e st = Inr st'"
  shows "\<exists>h f. st' = st\<lparr>hfont := h, font := f\<rparr>"
proof -
  have "st' = st\<lparr>hfont := hfont st', font := font st'\<rparr>"
    using assms
    by (auto simp add: UpdateFont_def Let_def split: if_splits option.splits)
  then show ?thesis by blast
qed

lemma UpdateFont_fault:
  "isl (UpdateFont e st) \<longleftrightarrow> face st \<noteq> [] \<and> LF_FACESIZE \<le> length (face st)"
  by (auto simp add: UpdateFont_def Let_def split: if_splits option.splits)

lemma Update_frame:
  assumes "Update e s st = Inr (st', calls)"
  shows "\<exists>p h f t.
           UpdateFont e (assign_settings e s st) = Inr p \<and>
           p = (assign_settings e s st)\<lparr>hfont := h, font := f\<rparr> \<and>
           RenderText e p = Inr (st', calls) \<and>
           st' = p\<lparr>tex := t, cx := size_cx (canvas_size e p), cy := size_cy (canvas_size e p)\<rparr>"
proof -
  from assms obtain p where p: "UpdateFont e (assign_settings e s st) = Inr p"
    and r: "RenderText e p = Inr (st', calls)"
    by (auto simp add: Update_def split: sum.splits)
  from RenderText_frame [OF r] UpdateFont_frame [OF p] p r show ?thesis
    by blast
qed

subsection \<open>What Update assigns\<close>

lemma if_align:
  "(if c then r\<lparr>align := a\<rparr> else r\<lparr>align := b\<rparr>) = r\<lparr>align := (if c then a else b)\<rparr>"
  by simp

lemma if_valign:
  "(if c then r\<lparr>valign := a\<rparr> else r\<lparr>valign := b\<rparr>) = r\<lparr>valign := (if c then a else b)\<rparr>"
  by simp

text \<open>The fields after lines 486-554, one by one. Appending a newline and removing it
  again (lines 532-535) leaves the text as it was.\<close>

lemma assign_settings_eq:
  "assign_settings e s st =
     st\<lparr>face := to_wide e (Some (obs_data_get_string (obs_data_get_obj s S_FONT) ''face'')),
        face_size := ucast (obs_data_get_int (obs_data_get_obj s S_FONT) ''size''),
        bold := (obs_data_get_int (obs_data_get_obj s S_FONT) ''flags'' AND OBS_FONT_BOLD e \<noteq> 0),
        italic := (obs_data_get_int (obs_data_get_obj s S_FONT) ''flags'' AND OBS_FONT_ITALIC e \<noteq> 0),
        underline := (obs_data_get_int (obs_data_get_obj s S_FONT) ''flags'' AND OBS_FONT_UNDERLINE e \<noteq> 0),
        strikeout := (obs_data_get_int (obs_data_get_obj s S_FONT) ''flags'' AND OBS_FONT_STRIKEOUT e \<noteq> 0),
        color := rgb_to_bgr (obs_data_get_uint32 s S_COLOR),
        opacity := obs_data_get_uint32 s S_OPACITY,
        vertical := obs_data_get_bool s S_VERTICAL,
        read_from_file := obs_data_get_bool s S_USE_FILE,
        file := (if obs_data_get_bool s S_USE_FILE then obs_data_get_string s S_FILE else file st),
        text := (if obs_data_get_bool s S_USE_FILE
                 then to_wide e (os_quick_read_utf8_file e (obs_data_get_string s S_FILE))
                 else to_wide e (Some (obs_data_get_string s S_TEXT))),
        use_outline := obs_data_get_bool s S_OUTLINE,
        outline_color := rgb_to_bgr (obs_data_get_uint32 s S_OUTLINE_COLOR),
        outline_opacity := obs_data_get_uint32 s S_OUTLINE_OPACITY,
        outline_size := roundf (float_of_uint32 e (obs_data_get_uint32 s S_OUTLINE_SIZE)),
        align := (if obs_data_get_string s S_ALIGN = S_ALIGN_CENTER then Align_Center
                  else if obs_data_get_string s S_ALIGN = S_ALIGN_RIGHT then Align_Right
                  else Align_Left),
        valign := (if obs_data_get_string s S_VALIGN = S_VALIGN_CENTER then VAlign_Center
                   else if obs_data_get_string s S_VALIGN = S_VALIGN_BOTTOM then VAlign_Bottom
                   else VAlign_Top)\<rparr>"
proof (cases "obs_data_get_bool s S_USE_FILE")
  case True
  then show ?thesis
    unfolding assign_settings_def Let_def
    by (simp add: if_align if_valign split del: if_split cong: if_cong)
next
  case False
  then show ?thesis
    unfolding assign_settings_def Let_def
    by (simp add: if_align if_valign split del: if_split cong: if_cong)
qed

text \<open>\<open>UpdateFont\<close> and \<open>RenderText\<close> leave the fields that \<open>assign_settings\<close> sets.\<close>

lemma Update_keeps:
  assumes "Update e s st = Inr (st', calls)"
  shows "text st' = text (assign_settings e s st)"
    and "color st' = color (assign_settings e s st)"
    and "outline_color st' = outline_color (assign_settings e s st)"
    and "align st' = align (assign_settings e s st)"
    and "valign st' = valign (assign_settings e s st)"
    and "use_extents st' = use_extents st"
    and "wrap st' = wrap st"
    and "extents_cx st' = extents_cx st"
    and "extents_cy st' = extents_cy st"
proof -
  from Update_frame [OF assms] obtain p h f t where
    p: "p = (assign_settings e s st)\<lparr>hfont := h, font := f\<rparr>" and
    st': "st' = p\<lparr>tex := t, cx := size_cx (canvas_size e p), cy := size_cy (canvas_size e p)\<rparr>"
    by blast
  have a: "st' = (assign_settings e s st)\<lparr>hfont := h, font := f, tex := t,
             cx := size_cx (canvas_size e p), cy := size_cy (canvas_size e p)\<rparr>"
    unfolding st' by (subst p) simp
  show "text st' = text (assign_settings e s st)"
    and "color st' = color (assign_settings e s st)"
    and "outline_color st' = outline_color (assign_settings e s st)"
    and "align st' = align (assign_settings e s st)"
    and "valign st' = valign (assign_settings e s st)"
    by (simp_all add: a)
  show "use_extents st' = use_extents st"
    and "wrap st' = wrap st"
    and "extents_cx st' = extents_cx st"
    and "extents_cy st' = extents_cy st"
    by (simp_all add: a assign_settings_eq)
qed

text \<open>An update returns when the face name fits its buffer and the outline path does
  not meet a null font.\<close>

lemma sum_not_isl: "\<not> isl x \<Longrightarrow> \<exists>y. x = Inr y"
  by (cases x) simp_all

lemma UpdateFont_font:
  assumes "UpdateFont e st = Inr p" and "\<And>lf. CreateFontIndirect e lf \<noteq> None"
  shows "font p \<noteq> None"
  using assms(1)
  by (auto simp add: UpdateFont_def Let_def assms(2) split: if_splits option.splits)

lemma Update_returns:
  assumes "length (face (assign_settings e s st)) < LF_FACESIZE"
      and "\<not> use_outline (assign_settings e s st) \<or> (\<forall>lf. CreateFontIndirect e lf \<noteq> None)"
  shows "\<exists>st' calls. Update e s st = Inr (st', calls)"
proof -
  have "\<not> isl (UpdateFont e (assign_settings e s st))"
    using assms(1) by (simp add: UpdateFont_fault)
  then obtain p where p: "UpdateFont e (assign_settings e s st) = Inr p"
    using sum_not_isl by blast
  from UpdateFont_frame [OF p] have "use_outline p = use_outline (assign_settings e s st)"
    by auto
  with assms(2) UpdateFont_font [OF p] have "\<not> isl (RenderText e p)"
    by (auto simp add: RenderText_fault)
  then obtain r where "RenderText e p = Inr r"
    using sum_not_isl by blast
  with p show ?thesis
    by (cases r) (simp add: Update_def)
qed

subsection \<open>The texture\<close>

lemma SIZE_eta: "\<lparr>size_cx = size_cx c, size_cy = size_cy c\<rparr> = c"
  by (cases c) simp

lemma RenderText_create:
  assumes "RenderText e st = Inr (st', calls)"
      and "tex st = None \<or> cx st \<noteq> size_cx (canvas_size e st) \<or> cy st \<noteq> size_cy (canvas_size e st)"
  shows "\<exists>bits.
           tex st' = gs_texture_create e (size_cx (canvas_size e st)) (size_cy (canvas_size e st)) bits \<and>
           calls = [Enter_graphics] @
                   (case tex st of Some t \<Rightarrow> [Texture_destroy t] | None \<Rightarrow> []) @
                   [Texture_create (size_cx (canvas_size e st)) (size_cy (canvas_size e st)) bits,
                    Leave_graphics]"
proof -
  from RenderText_Inr [OF assms(1)] obtain bits
    where "(st', calls) = sync_texture e st (canvas_size e st) bits" ..
  with assms(2) have
    "tex st' = gs_texture_create e (size_cx (canvas_size e st)) (size_cy (canvas_size e st)) bits \<and>
     calls = [Enter_graphics] @
             (case tex st of Some t \<Rightarrow> [Texture_destroy t] | None \<Rightarrow> []) @
             [Texture_create (size_cx (canvas_size e st)) (size_cy (canvas_size e st)) bits,
              Leave_graphics]"
    by (simp add: sync_texture_def)
  then show ?thesis ..
qed

lemma RenderText_reuse:
  assumes "RenderText e st = Inr (st', calls)"
      and "tex st = Some t"
      and "cx st = size_cx (canvas_size e st)" and "cy st = size_cy (canvas_size e st)"
  shows "st' = st \<and>
         (\<exists>bits. calls = [Enter_graphics,
                           Texture_set_image t bits (size_cx (canvas_size e st) * 4),
                           Leave_graphics])"
proof -
  from RenderText_Inr [OF assms(1)] obtain bits
    where "(st', calls) = sync_texture e st (canvas_size e st) bits" ..
  with assms(2-4) have
    "st' = st \<and> calls = [Enter_graphics,
                         Texture_set_image t bits (size_cx (canvas_size e st) * 4),
                         Leave_graphics]"
    by (simp add: sync_texture_def)
  then show ?thesis by blast
qed

subsection \<open>Faults and the alignment settings\<close>

lemma Update_fault:
  "isl (Update e s st) \<longleftrightarrow>
     (case UpdateFont e (assign_settings e s st) of
        Inl f \<Rightarrow> True
      | Inr p \<Rightarrow> text p \<noteq> [] \<and> use_outline p \<and> font p = None)"
  by (simp add: Update_def RenderText_fault split: sum.splits)

text \<open>The font that \<open>UpdateFont\<close> leaves is fixed by the face, the size and the style.\<close>

lemma UpdateFont_font_value:
  assumes "UpdateFont e st = Inr p"
  shows "font p =
           map_option Font
             (case (if face st \<noteq> []
                    then CreateFontIndirect e
                           \<lparr>lfHeight = face_size st,
                            lfWeight = (if bold st then FW_BOLD else FW_DONTCARE),
                            lfItalic = italic st, lfUnderline = underline st,
                            lfStrikeOut = strikeout st, lfQuality = ANTIALIASED_QUALITY,
                            lfFaceName = face st\<rparr>
                    else None) of
                Some h \<Rightarrow> Some h
              | None \<Rightarrow>
                  CreateFontIndirect e
                    \<lparr>lfHeight = face_size st,
                     lfWeight = (if bold st then FW_BOLD else FW_DONTCARE),
                     lfItalic = italic st, lfUnderline = underline st,
                     lfStrikeOut = strikeout st, lfQuality = ANTIALIASED_QUALITY,
                     lfFaceName = Arial\<rparr>)"
  using assms
  by (auto simp add: UpdateFont_def Let_def split: if_splits option.splits)

lemma assign_settings_override:
  "assign_settings e ((S_ALIGN, Item_string a) # (S_VALIGN, Item_string v) # s) st =
     (assign_settings e s st)
       \<lparr>align := align (assign_settings e ((S_ALIGN, Item_string a) # (S_VALIGN, Item_string v) # s) st),
        valign := valign (assign_settings e ((S_ALIGN, Item_string a) # (S_VALIGN, Item_string v) # s) st)\<rparr>"
  by (simp add: assign_settings_eq obs_data_get_string_def obs_data_get_int_def
      obs_data_get_bool_def obs_data_get_obj_def obs_data_get_uint32_def)

lemma Update_fault_override:
  "isl (Update e ((S_ALIGN, Item_string a) # (S_VALIGN, Item_string v) # s) st) \<longleftrightarrow>
   isl (Update e s st)"
proof -
  define s' where "s' = (S_ALIGN, Item_string a) # (S_VALIGN, Item_string v) # s"
  define b where "b = assign_settings e s st"
  define b' where "b' = assign_settings e s' st"
  have o: "b' = b\<lparr>align := align b', valign := valign b'\<rparr>"
    unfolding b_def b'_def s'_def by (rule assign_settings_override)
  have same: "face b' = face b" "face_size b' = face_size b" "bold b' = bold b"
    "italic b' = italic b" "underline b' = underline b" "strikeout b' = strikeout b"
    "text b' = text b" "use_outline b' = use_outline b"
    by (subst o, simp)+
  have fault: "isl (UpdateFont e b') \<longleftrightarrow> isl (UpdateFont e b)"
    by (simp add: UpdateFont_fault same)
  have "isl (Update e s' st) \<longleftrightarrow> isl (Update e s st)"
  proof (cases "UpdateFont e b")
    case (Inl f)
    with fault show ?thesis
      by (auto simp add: Update_fault b_def [symmetric] b'_def [symmetric] split: sum.splits)
  next
    case (Inr p)
    with fault obtain p' where p': "UpdateFont e b' = Inr p'"
      by (cases "UpdateFont e b'") auto
    have "font p' = font p"
      unfolding UpdateFont_font_value [OF p'] UpdateFont_font_value [OF Inr]
      by (simp only: same)
    moreover from UpdateFont_frame [OF p'] UpdateFont_frame [OF Inr]
    have "text p' = text b'" "use_outline p' = use_outline b'"
      "text p = text b" "use_outline p = use_outline b"
      by auto
    ultimately show ?thesis
      by (simp add: Update_fault b_def [symmetric] b'_def [symmetric] Inr p' same)
  qed
  then show ?thesis
    unfolding s'_def .
qed

subsection \<open>Runs of updates\<close>

lemma run_updates_extents:
  assumes "run_updates us st = Inr st'"
  shows "use_extents st' = use_extents st \<and> wrap st' = wrap st \<and>
         extents_cx st' = extents_cx st \<and> extents_cy st' = extents_cy st"
  using assms
proof (induction us arbitrary: st)
  case Nil
  then show ?case by simp
next
  case (Cons u us)
  obtain e s where u: "u = (e, s)"
    by (cases u)
  from Cons.prems obtain st1 calls where
    s1: "Update e s st = Inr (st1, calls)" and r: "run_updates us st1 = Inr st'"
    by (auto simp add: u split: sum.splits)
  from Cons.IH [OF r] Update_keeps(6-9) [OF s1] show ?case
    by simp
qed

lemma settings_agree:
  assumes "\<forall>k \<in> set settings_keys. map_of s k = map_of s2 k"
  shows "assign_settings e s st = assign_settings e s2 st"
proof -
  from assms have
    "map_of s S_TEXT = map_of s2 S_TEXT" "map_of s S_FONT = map_of s2 S_FONT"
    "map_of s S_ALIGN = map_of s2 S_ALIGN" "map_of s S_VALIGN = map_of s2 S_VALIGN"
    "map_of s S_COLOR = map_of s2 S_COLOR" "map_of s S_OPACITY = map_of s2 S_OPACITY"
    "map_of s S_VERTICAL = map_of s2 S_VERTICAL" "map_of s S_OUTLINE = map_of s2 S_OUTLINE"
    "map_of s S_OUTLINE_COLOR = map_of s2 S_OUTLINE_COLOR"
    "map_of s S_OUTLINE_OPACITY = map_of s2 S_OUTLINE_OPACITY"
    "map_of s S_OUTLINE_SIZE = map_of s2 S_OUTLINE_SIZE"
    "map_of s S_USE_FILE = map_of s2 S_USE_FILE" "map_of s S_FILE = map_of s2 S_FILE"
    by (simp_all add: settings_keys_def)
  then show ?thesis
    by (simp add: assign_settings_eq obs_data_get_string_def obs_data_get_int_def
        obs_data_get_bool_def obs_data_get_obj_def obs_data_get_uint32_def)
qed

subsection \<open>Evaluation in the sample environment\<close>

lemmas eval_defs =
  Update_def assign_settings_eq UpdateFont_def RenderText_def CalculateTextSizes_def
  GetStringFormat_def GenericTypographic_def measure_text_def floor_at_face_size_def
  apply_extents_def round_even_def LONG_rem_def clamp_def draw_background_def draw_text_def
  sync_texture_def zero_RectF_def sample_env_def TextSource_new_def to_wide_def
  obs_data_get_string_def obs_data_get_int_def obs_data_get_bool_def obs_data_get_obj_def
  obs_data_get_uint32_def rgb_to_bgr_def get_alpha_val_def roundf_def LF_FACESIZE_def Arial_def
  FW_BOLD_def FW_DONTCARE_def ANTIALIASED_QUALITY_def MIN_SIZE_CX_def MIN_SIZE_CY_def
  MAX_SIZE_CX_def MAX_SIZE_CY_def smod_int_alt_def Let_def

lemmas sample_defs = sample_format_def sample_bits_def sample_state_def

section \<open>The claims\<close>

subsection \<open>C4: the alpha byte\<close>

text \<open>C4, as stated, asks for the alpha byte to be \<open>round (opacity * 255 / 100)\<close>. At
  opacity 1 the exact quotient is 2.55, which rounds to 3; \<open>get_alpha_val\<close> divides
  unsigned integers and yields 2.\<close>

theorem get_alpha_val_not_rounded:
  "get_alpha_val 1 \<noteq> push_bit 24 (word_of_int (round (1 * 255 / 100 :: real)) AND 0xFF)"
  by (simp add: get_alpha_val_def round_def)

text \<open>C4, amended: for every opacity in [0, 100], \<open>get_alpha_val\<close> is the floor of
  \<open>opacity * 255 / 100\<close> (the quotient of the truncating integer division), masked to
  0xFF and shifted into the top byte of the 32-bit colour; the top byte read back is
  that floor.\<close>

theorem get_alpha_val_truncates:
  assumes "x \<le> 100"
  shows "get_alpha_val x = push_bit 24 (word_of_int \<lfloor>real (unat x) * 255 / 100\<rfloor> AND 0xFF) \<and>
         drop_bit 24 (get_alpha_val x) = word_of_int \<lfloor>real (unat x) * 255 / 100\<rfloor>"
proof -
  have "\<lfloor>real (unat x) * 255 / 100\<rfloor> = int (unat x * 255 div 100)"
    using floor_divide_of_nat_eq [of "unat x * 255" 100, where ?'a = real] by simp
  also have "\<dots> = int (unat (x * 255 div 100))"
    by (simp add: alpha_quotient(1) [OF assms])
  finally have fl: "(word_of_int \<lfloor>real (unat x) * 255 / 100\<rfloor> :: 32 word) = x * 255 div 100"
    by simp
  have m: "(x * 255 div 100) AND 0xFF = x * 255 div 100"
    using alpha_quotient(2) [OF assms] by (simp add: mask_eq_exp_minus_1)
  show ?thesis
    unfolding fl get_alpha_val_def m
    by (rule conjI [OF refl drop_push_byte [OF alpha_quotient(2) [OF assms]]])
qed

theorem get_alpha_val_truncates_witness:
  "(50::32 word) \<le> 100 \<and> get_alpha_val 50 = 0x7F000000 \<and>
   drop_bit 24 (get_alpha_val 50) = (127 :: 32 word)"
  using get_alpha_val_truncates [of 50] by simp

subsection \<open>C1: the canvas is even and within bounds\<close>

text \<open>C1: for every state, environment, format and incoming bounding box, the width
  and the height that \<open>CalculateTextSizes\<close> returns are even and lie in [32, 8192]. Each
  is the clamp of the value before line 379 with one added when that value is odd: the
  rounding comes first, the clamp second. (The addition is that of \<^verbatim>\<open>LONG\<close>; an odd
  negative value, which the code moves to the even value below it, is clamped to 32
  either way.)\<close>

theorem canvas_even_and_bounded:
  fixes e st format bounding_box
  defines "canvas \<equiv> snd (CalculateTextSizes e st format bounding_box)"
      and "before \<equiv> size_before_rounding e st format bounding_box"
  shows "even (sint (size_cx canvas)) \<and> 32 \<le> sint (size_cx canvas) \<and> sint (size_cx canvas) \<le> 8192 \<and>
         even (sint (size_cy canvas)) \<and> 32 \<le> sint (size_cy canvas) \<and> sint (size_cy canvas) \<le> 8192 \<and>
         size_cx canvas =
           clamp (if odd (sint (size_cx before)) then size_cx before + 1 else size_cx before)
             MIN_SIZE_CX MAX_SIZE_CX \<and>
         size_cy canvas =
           clamp (if odd (sint (size_cy before)) then size_cy before + 1 else size_cy before)
             MIN_SIZE_CY MAX_SIZE_CY"
proof -
  have cx: "size_cx canvas = clamp (round_even (size_cx before)) 32 8192"
   and cy: "size_cy canvas = clamp (round_even (size_cy before)) 32 8192"
    by (simp_all add: canvas_def before_def CalculateTextSizes_size)
  show ?thesis
    unfolding MIN_SIZE_CX_def MIN_SIZE_CY_def MAX_SIZE_CX_def MAX_SIZE_CY_def
    using quantized_even_in_range [of "size_cx before"] quantized_even_in_range [of "size_cy before"]
      clamp_round_even [of "size_cx before"] clamp_round_even [of "size_cy before"]
    by (simp only: cx cy simp_thms)
qed

theorem canvas_even_and_bounded_witness:
  "snd (CalculateTextSizes sample_env (TextSource_new\<lparr>text := [0x61, 0x62, 0x63], face_size := 41\<rparr>)
        GenericTypographic zero_RectF) = \<lparr>size_cx = 32, size_cy = 42\<rparr> \<and>
   size_before_rounding sample_env (TextSource_new\<lparr>text := [0x61, 0x62, 0x63], face_size := 41\<rparr>)
        GenericTypographic zero_RectF = \<lparr>size_cx = 21, size_cy = 41\<rparr> \<and>
   even (sint (32 :: 32 word)) \<and> even (sint (42 :: 32 word)) \<and>
   (42 :: 32 word) = clamp (if odd (sint (41 :: 32 word)) then 41 + 1 else 41) MIN_SIZE_CY MAX_SIZE_CY"
proof -
  let ?st = "TextSource_new\<lparr>text := [0x61, 0x62, 0x63], face_size := 41\<rparr>"
  have b: "size_before_rounding sample_env ?st GenericTypographic zero_RectF = \<lparr>size_cx = 21, size_cy = 41\<rparr>"
    by (simp add: size_before_rounding_def measured_size_def apply_extents_def floor_at_face_size_def measure_text_def
        sample_env_def TextSource_new_def zero_RectF_def)
  have c: "snd (CalculateTextSizes sample_env ?st GenericTypographic zero_RectF) = \<lparr>size_cx = 32, size_cy = 42\<rparr>"
    by (simp add: CalculateTextSizes_size b round_even_def LONG_rem_def clamp_def smod_int_alt_def)
  show ?thesis
    using canvas_even_and_bounded [of sample_env ?st GenericTypographic zero_RectF]
    by (simp add: b c)
qed

subsection \<open>C3: extents with wrap\<close>

text \<open>C3, as stated, asks for the canvas to equal the requested extents for every
  requested value. With a non-empty text, extents mode, wrap and the request 101 by 51
  the canvas is 102 by 52.\<close>

theorem wrap_extents_not_exact:
  "snd (CalculateTextSizes sample_env
         (TextSource_new\<lparr>text := [0x61], use_extents := True, wrap := True,
                           extents_cx := 101, extents_cy := 51\<rparr>)
         GenericTypographic zero_RectF) = \<lparr>size_cx = 102, size_cy = 52\<rparr>"
  by (simp add: CalculateTextSizes_size size_before_rounding_def apply_extents_def
      TextSource_new_def round_even_def LONG_rem_def clamp_def smod_int_alt_def)

text \<open>C3, amended: for every non-empty text with extents mode and wrap on, each
  dimension of the canvas is fixed by the requested extent \<open>x\<close>, an unsigned 32-bit
  value, alone: it is 32 when \<open>x < 32\<close>; \<open>x\<close> rounded up to the next even value when
  \<open>32 \<le> x \<le> 8192\<close>; 8192 when \<open>8192 < x < 2147483647\<close>; and 32 when
  \<open>x \<ge> 2147483647\<close>, where the extent, read as a \<^verbatim>\<open>LONG\<close>, is negative or becomes so
  when one is added. So the dimension is the requested extent itself exactly when the
  extent is even and within [32, 8192].\<close>

theorem wrap_extents_dimension:
  fixes e st format bounding_box
  assumes "text st \<noteq> []" and "use_extents st" and "wrap st"
  defines "canvas \<equiv> snd (CalculateTextSizes e st format bounding_box)"
      and "dimension \<equiv> \<lambda>x :: uint32_t.
             if unat x < 32 then 32
             else if unat x \<le> 8192 then (if odd (unat x) then x + 1 else x)
             else if unat x < 2147483647 then 8192
             else (32 :: LONG)"
  shows "size_cx canvas = dimension (extents_cx st) \<and>
         size_cy canvas = dimension (extents_cy st) \<and>
         (size_cx canvas = extents_cx st \<longleftrightarrow>
            even (unat (extents_cx st)) \<and> 32 \<le> unat (extents_cx st) \<and>
            unat (extents_cx st) \<le> 8192) \<and>
         (size_cy canvas = extents_cy st \<longleftrightarrow>
            even (unat (extents_cy st)) \<and> 32 \<le> unat (extents_cy st) \<and>
            unat (extents_cy st) \<le> 8192)"
proof -
  have b: "size_before_rounding e st format bounding_box =
             \<lparr>size_cx = extents_cx st, size_cy = extents_cy st\<rparr>"
    using assms(2,3) by (simp add: size_before_rounding_def apply_extents_def SIZE_make)
  have x: "size_cx canvas = clamp (round_even (extents_cx st)) 32 8192"
   and y: "size_cy canvas = clamp (round_even (extents_cy st)) 32 8192"
    unfolding canvas_def by (simp_all add: CalculateTextSizes_size b)
  show ?thesis
    unfolding x y extent_dimension_exact
    unfolding extent_dimension dimension_def by simp
qed

theorem wrap_extents_dimension_witness:
  "text (TextSource_new\<lparr>text := [0x61], use_extents := True, wrap := True,
                          extents_cx := 100, extents_cy := 0xFFFFFFFF\<rparr>) \<noteq> [] \<and>
   snd (CalculateTextSizes sample_env
         (TextSource_new\<lparr>text := [0x61], use_extents := True, wrap := True,
                           extents_cx := 100, extents_cy := 0xFFFFFFFF\<rparr>)
         GenericTypographic zero_RectF) = \<lparr>size_cx = 100, size_cy = 32\<rparr> \<and>
   snd (CalculateTextSizes sample_env
         (TextSource_new\<lparr>text := [0x61], use_extents := True, wrap := True,
                           extents_cx := 31, extents_cy := 10001\<rparr>)
         GenericTypographic zero_RectF) = \<lparr>size_cx = 32, size_cy = 8192\<rparr>"
proof -
  let ?a = "TextSource_new\<lparr>text := [0x61], use_extents := True, wrap := True,
                             extents_cx := 100, extents_cy := 0xFFFFFFFF\<rparr>"
  let ?b = "TextSource_new\<lparr>text := [0x61], use_extents := True, wrap := True,
                             extents_cx := 31, extents_cy := 10001\<rparr>"
  have "size_cx (snd (CalculateTextSizes sample_env ?a GenericTypographic zero_RectF)) = 100 \<and>
        size_cy (snd (CalculateTextSizes sample_env ?a GenericTypographic zero_RectF)) = 32"
    using wrap_extents_dimension [of ?a sample_env GenericTypographic zero_RectF]
    by (simp add: TextSource_new_def)
  then have a: "snd (CalculateTextSizes sample_env ?a GenericTypographic zero_RectF) =
                  \<lparr>size_cx = 100, size_cy = 32\<rparr>"
    by (cases "snd (CalculateTextSizes sample_env ?a GenericTypographic zero_RectF)") simp
  have "size_cx (snd (CalculateTextSizes sample_env ?b GenericTypographic zero_RectF)) = 32 \<and>
        size_cy (snd (CalculateTextSizes sample_env ?b GenericTypographic zero_RectF)) = 8192"
    using wrap_extents_dimension [of ?b sample_env GenericTypographic zero_RectF]
    by (simp add: TextSource_new_def)
  then have b: "snd (CalculateTextSizes sample_env ?b GenericTypographic zero_RectF) =
                  \<lparr>size_cx = 32, size_cy = 8192\<rparr>"
    by (cases "snd (CalculateTextSizes sample_env ?b GenericTypographic zero_RectF)") simp
  from a b show ?thesis
    by (simp add: TextSource_new_def)
qed

subsection \<open>C6: extents without wrap\<close>




subsection \<open>C2: the trailing newline\<close>

text \<open>C2, as stated, asks for a trailing newline of the content to be removed before
  the text is stored. For the typed text \<open>a\<close> followed by a newline, the stored text
  after the update is still the two code units 0x61, 0x0A.\<close>

theorem trailing_newline_kept:
  "map_sum id (text \<circ> fst)
     (Update sample_env [(S_TEXT, Item_string [CHR ''a'', CHR 0x0A])] TextSource_new) =
   Inr [0x61, 0x0A]"
proof -
  let ?s = "[(S_TEXT, Item_string [CHR ''a'', CHR 0x0A])]"
  have "length (face (assign_settings sample_env ?s TextSource_new)) < LF_FACESIZE"
    by (simp add: assign_settings_eq to_wide_def sample_env_def obs_data_get_string_def
        obs_data_get_obj_def LF_FACESIZE_def)
  moreover have "\<forall>lf. CreateFontIndirect sample_env lf \<noteq> None"
    by (simp add: sample_env_def)
  ultimately obtain st' calls where u: "Update sample_env ?s TextSource_new = Inr (st', calls)"
    using Update_returns by blast
  have "text st' = [0x61, 0x0A]"
    unfolding Update_keeps(1) [OF u]
    by (simp add: assign_settings_eq to_wide_def sample_env_def obs_data_get_string_def
        obs_data_get_bool_def)
  with u show ?thesis by simp
qed

text \<open>C2, amended: after a configuration update the stored text is the supplied
  content (the typed text, or the contents of the file when reading from a file,
  decoded to a wide string), unchanged whether or not it ends with a newline.\<close>

theorem Update_stores_content_unchanged:
  assumes "Update e s st = Inr (st', calls)"
  shows "text st' =
           (if obs_data_get_bool s S_USE_FILE
            then to_wide e (os_quick_read_utf8_file e (obs_data_get_string s S_FILE))
            else to_wide e (Some (obs_data_get_string s S_TEXT)))"
  unfolding Update_keeps(1) [OF assms] by (simp add: assign_settings_eq)

theorem Update_stores_content_unchanged_witness:
  "map_sum id (text \<circ> fst)
     (Update sample_env [(S_TEXT, Item_string [CHR ''H'', CHR ''i'', CHR 0x0A])] TextSource_new) =
   Inr (to_wide sample_env (Some [CHR ''H'', CHR ''i'', CHR 0x0A])) \<and>
   to_wide sample_env (Some [CHR ''H'', CHR ''i'', CHR 0x0A]) = [0x48, 0x69, 0x0A]"
proof -
  let ?s = "[(S_TEXT, Item_string [CHR ''H'', CHR ''i'', CHR 0x0A])]"
  have "length (face (assign_settings sample_env ?s TextSource_new)) < LF_FACESIZE"
    by (simp add: assign_settings_eq to_wide_def sample_env_def obs_data_get_string_def
        obs_data_get_obj_def LF_FACESIZE_def)
  moreover have "\<forall>lf. CreateFontIndirect sample_env lf \<noteq> None"
    by (simp add: sample_env_def)
  ultimately obtain st' calls where u: "Update sample_env ?s TextSource_new = Inr (st', calls)"
    using Update_returns by blast
  from Update_stores_content_unchanged [OF u]
  have "text st' = to_wide sample_env (Some [CHR ''H'', CHR ''i'', CHR 0x0A])"
    by (simp add: obs_data_get_string_def obs_data_get_bool_def)
  with u show ?thesis
    by (simp add: to_wide_def sample_env_def)
qed

subsection \<open>C5: the colour permutation\<close>

text \<open>C5: \<open>rgb_to_bgr\<close> maps the 24-bit value with bytes R, G, B (from the top) to the
  one with bytes B, G, R; applying it twice to a 24-bit value gives the value back; and
  after an update the fill colour and the outline colour are each \<open>rgb_to_bgr\<close>,
  applied once, of the value read from the settings.\<close>

theorem rgb_to_bgr_swaps_red_and_blue:
  fixes r g b :: "8 word"
  shows "rgb_to_bgr (push_bit 16 (ucast r) OR push_bit 8 (ucast g) OR ucast b) =
           push_bit 16 (ucast b) OR push_bit 8 (ucast g) OR ucast r \<and>
         (x \<le> 0xFFFFFF \<longrightarrow> rgb_to_bgr (rgb_to_bgr x) = x) \<and>
         (Update e s st = Inr (st', calls) \<longrightarrow>
            color st' = rgb_to_bgr (obs_data_get_uint32 s S_COLOR) \<and>
            outline_color st' = rgb_to_bgr (obs_data_get_uint32 s S_OUTLINE_COLOR))"
proof (intro conjI impI)
  show "rgb_to_bgr (push_bit 16 (ucast r) OR push_bit 8 (ucast g) OR ucast b) =
           push_bit 16 (ucast b) OR push_bit 8 (ucast g) OR ucast r"
    by (rule rgb_to_bgr_bytes)
next
  assume "x \<le> 0xFFFFFF"
  then have "x < 2 ^ 24"
    by (simp add: word_le_nat_alt word_less_nat_alt)
  then have "x AND mask 24 = x"
    by (rule less_mask_eq)
  then show "rgb_to_bgr (rgb_to_bgr x) = x"
    by (simp add: rgb_to_bgr_twice mask_24)
next
  assume u: "Update e s st = Inr (st', calls)"
  show "color st' = rgb_to_bgr (obs_data_get_uint32 s S_COLOR)"
    unfolding Update_keeps(2) [OF u] by (simp add: assign_settings_eq)
  show "outline_color st' = rgb_to_bgr (obs_data_get_uint32 s S_OUTLINE_COLOR)"
    unfolding Update_keeps(3) [OF u] by (simp add: assign_settings_eq)
qed

theorem rgb_to_bgr_swaps_red_and_blue_witness:
  "rgb_to_bgr 0x112233 = 0x332211 \<and> (0x112233 :: 32 word) \<le> 0xFFFFFF \<and>
   rgb_to_bgr (rgb_to_bgr 0x112233) = 0x112233 \<and>
   map_sum id ((\<lambda>st. (color st, outline_color st)) \<circ> fst)
     (Update sample_env
        [(S_TEXT, Item_string ''Hi''), (S_COLOR, Item_int 0x112233),
         (S_OUTLINE_COLOR, Item_int 0xAABBCC)] TextSource_new) =
   Inr (0x332211, 0xCCBBAA)"
proof -
  let ?s = "[(S_TEXT, Item_string ''Hi''), (S_COLOR, Item_int 0x112233),
             (S_OUTLINE_COLOR, Item_int 0xAABBCC)]"
  have "length (face (assign_settings sample_env ?s TextSource_new)) < LF_FACESIZE"
    by (simp add: assign_settings_eq to_wide_def sample_env_def obs_data_get_string_def
        obs_data_get_obj_def LF_FACESIZE_def)
  moreover have "\<forall>lf. CreateFontIndirect sample_env lf \<noteq> None"
    by (simp add: sample_env_def)
  ultimately obtain st' calls where u: "Update sample_env ?s TextSource_new = Inr (st', calls)"
    using Update_returns by blast
  have "color st' = rgb_to_bgr 0x112233 \<and> outline_color st' = rgb_to_bgr 0xAABBCC"
    using rgb_to_bgr_swaps_red_and_blue [where r = "0x11" and g = "0x22" and b = "0x33"
      and x = "0x112233" and e = sample_env and s = ?s and st = TextSource_new
      and st' = st' and calls = calls] u
    by (simp add: obs_data_get_uint32_def obs_data_get_int_def)
  then show ?thesis
    using u by (simp add: rgb_to_bgr_def)
qed

subsection \<open>C7: the texture across two updates\<close>

text \<open>C7: take two successive updates that both return. The dimensions stored after
  the first are the canvas size it computed. If a texture exists after the first and
  the second computes the same canvas size, the second keeps the texture handle and
  makes exactly one call on it, the upload of the new contents, between entering and
  leaving the graphics context: nothing is destroyed or created. If no texture exists
  or the canvas size differs, the second destroys the old texture, if there is one,
  and then creates one of the new size.\<close>

theorem texture_reused_or_recreated:
  assumes u1: "Update e1 s1 st0 = Inr (st1, calls1)"
      and u2: "Update e2 s2 st1 = Inr (st2, calls2)"
  shows "update_canvas e1 s1 st0 = Some \<lparr>size_cx = cx st1, size_cy = cy st1\<rparr> \<and>
         (\<exists>c2. update_canvas e2 s2 st1 = Some c2 \<and>
            (\<forall>t. tex st1 = Some t \<and> c2 = \<lparr>size_cx = cx st1, size_cy = cy st1\<rparr> \<longrightarrow>
                 tex st2 = Some t \<and>
                 (\<exists>bits. calls2 = [Enter_graphics,
                                    Texture_set_image t bits (size_cx c2 * 4),
                                    Leave_graphics])) \<and>
            (tex st1 = None \<or> c2 \<noteq> \<lparr>size_cx = cx st1, size_cy = cy st1\<rparr> \<longrightarrow>
                 (\<exists>bits. tex st2 = gs_texture_create e2 (size_cx c2) (size_cy c2) bits \<and>
                         calls2 = [Enter_graphics] @
                                  (case tex st1 of Some t \<Rightarrow> [Texture_destroy t] | None \<Rightarrow> []) @
                                  [Texture_create (size_cx c2) (size_cy c2) bits,
                                   Leave_graphics])))"
proof -
  from Update_frame [OF u1] obtain p1 t1 where
    p1: "UpdateFont e1 (assign_settings e1 s1 st0) = Inr p1" and
    s1: "st1 = p1\<lparr>tex := t1, cx := size_cx (canvas_size e1 p1), cy := size_cy (canvas_size e1 p1)\<rparr>"
    by blast
  have first: "update_canvas e1 s1 st0 = Some \<lparr>size_cx = cx st1, size_cy = cy st1\<rparr>"
    by (simp add: update_canvas_def p1 s1 SIZE_eta)
  from Update_frame [OF u2] obtain p2 h2 f2 where
    p2: "UpdateFont e2 (assign_settings e2 s2 st1) = Inr p2" and
    f2: "p2 = (assign_settings e2 s2 st1)\<lparr>hfont := h2, font := f2\<rparr>" and
    r2: "RenderText e2 p2 = Inr (st2, calls2)"
    by blast
  have same: "tex p2 = tex st1" "cx p2 = cx st1" "cy p2 = cy st1"
    by (simp_all add: f2 assign_settings_eq)
  have second: "update_canvas e2 s2 st1 = Some (canvas_size e2 p2)"
    by (simp add: update_canvas_def p2)
  have reuse: "tex st2 = Some t \<and>
      (\<exists>bits. calls2 = [Enter_graphics,
                         Texture_set_image t bits (size_cx (canvas_size e2 p2) * 4),
                         Leave_graphics])"
    if "tex st1 = Some t" and "canvas_size e2 p2 = \<lparr>size_cx = cx st1, size_cy = cy st1\<rparr>" for t
  proof -
    have "cx p2 = size_cx (canvas_size e2 p2)" "cy p2 = size_cy (canvas_size e2 p2)" "tex p2 = Some t"
      using that same by simp_all
    from RenderText_reuse [OF r2 this(3) this(1,2)] \<open>tex p2 = Some t\<close> show ?thesis
      by auto
  qed
  have create: "\<exists>bits. tex st2 = gs_texture_create e2 (size_cx (canvas_size e2 p2))
                                  (size_cy (canvas_size e2 p2)) bits \<and>
       calls2 = [Enter_graphics] @
                (case tex st1 of Some t \<Rightarrow> [Texture_destroy t] | None \<Rightarrow> []) @
                [Texture_create (size_cx (canvas_size e2 p2)) (size_cy (canvas_size e2 p2)) bits,
                 Leave_graphics]"
    if "tex st1 = None \<or> canvas_size e2 p2 \<noteq> \<lparr>size_cx = cx st1, size_cy = cy st1\<rparr>"
  proof -
    have "canvas_size e2 p2 \<noteq> \<lparr>size_cx = cx st1, size_cy = cy st1\<rparr> \<Longrightarrow>
          cx st1 \<noteq> size_cx (canvas_size e2 p2) \<or> cy st1 \<noteq> size_cy (canvas_size e2 p2)"
      using SIZE_eta [of "canvas_size e2 p2"] by auto
    with that have "tex p2 = None \<or> cx p2 \<noteq> size_cx (canvas_size e2 p2) \<or>
                    cy p2 \<noteq> size_cy (canvas_size e2 p2)"
      using same by auto
    from RenderText_create [OF r2 this] show ?thesis
      by (simp add: same)
  qed
  from first second reuse create show ?thesis
    by blast
qed

theorem texture_reused_or_recreated_witness:
  "Update sample_env [(S_TEXT, Item_string ''Hi'')] TextSource_new =
     Inr (sample_state, [Enter_graphics, Texture_create 32 32 (sample_bits 12), Leave_graphics]) \<and>
   update_canvas sample_env [(S_TEXT, Item_string ''Hi'')] TextSource_new =
     Some \<lparr>size_cx = 32, size_cy = 32\<rparr> \<and>
   Update sample_env [(S_TEXT, Item_string ''Hi'')] sample_state =
     Inr (sample_state,
          [Enter_graphics, Texture_set_image 1 (sample_bits 12) 128, Leave_graphics]) \<and>
   update_canvas sample_env [(S_TEXT, Item_string ''Hi'')] sample_state =
     Some \<lparr>size_cx = 32, size_cy = 32\<rparr> \<and>
   Update sample_env
     [(S_TEXT, Item_string ''Hi''), (S_FONT, Item_obj [(''size'', Item_int 50)])] sample_state =
     Inr (sample_state\<lparr>face_size := 50, cy := 50\<rparr>,
          [Enter_graphics, Texture_destroy 1, Texture_create 32 50 (sample_bits 50),
           Leave_graphics])"
proof -
  let ?hi = "[(S_TEXT, Item_string ''Hi'')]"
  let ?big = "[(S_TEXT, Item_string ''Hi''), (S_FONT, Item_obj [(''size'', Item_int 50)])]"
  have u1: "Update sample_env ?hi TextSource_new =
      Inr (sample_state, [Enter_graphics, Texture_create 32 32 (sample_bits 12), Leave_graphics])"
    by (simp add: eval_defs sample_defs)
  have u2: "Update sample_env ?hi sample_state =
      Inr (sample_state, [Enter_graphics, Texture_set_image 1 (sample_bits 12) 128, Leave_graphics])"
    by (simp add: eval_defs sample_defs)
  have u3: "Update sample_env ?big sample_state =
      Inr (sample_state\<lparr>face_size := 50, cy := 50\<rparr>,
           [Enter_graphics, Texture_destroy 1, Texture_create 32 50 (sample_bits 50),
            Leave_graphics])"
    by (simp add: eval_defs sample_defs)
  have d: "cx sample_state = 32" "cy sample_state = 32"
    by (simp_all add: sample_state_def)
  from texture_reused_or_recreated [OF u1 u2]
  have c1: "update_canvas sample_env ?hi TextSource_new = Some \<lparr>size_cx = 32, size_cy = 32\<rparr>"
    by (simp add: d)
  from texture_reused_or_recreated [OF u2 u3]
  have c2: "update_canvas sample_env ?hi sample_state = Some \<lparr>size_cx = 32, size_cy = 32\<rparr>"
    by (simp add: d)
  from u1 u2 u3 c1 c2 show ?thesis
    by simp
qed

subsection \<open>C8: unrecognised alignment strings\<close>

text \<open>C8: an alignment string other than \<open>center\<close> and \<open>right\<close> is normalised to
  \<open>Left\<close>, a vertical-alignment string other than \<open>center\<close> and \<open>bottom\<close> to \<open>Top\<close>, and
  these are the values in the state an update returns. No string is an error:
  replacing the two strings by any others leaves unchanged whether the update
  faults.\<close>

theorem unrecognized_alignment_defaults:
  "(obs_data_get_string s S_ALIGN \<noteq> S_ALIGN_CENTER \<and> obs_data_get_string s S_ALIGN \<noteq> S_ALIGN_RIGHT
      \<longrightarrow> align (assign_settings e s st) = Align_Left) \<and>
   (obs_data_get_string s S_VALIGN \<noteq> S_VALIGN_CENTER \<and> obs_data_get_string s S_VALIGN \<noteq> S_VALIGN_BOTTOM
      \<longrightarrow> valign (assign_settings e s st) = VAlign_Top) \<and>
   (Update e s st = Inr (st', calls) \<longrightarrow>
      align st' = align (assign_settings e s st) \<and> valign st' = valign (assign_settings e s st)) \<and>
   (isl (Update e ((S_ALIGN, Item_string a) # (S_VALIGN, Item_string v) # s) st) \<longleftrightarrow>
    isl (Update e s st))"
proof (intro conjI impI)
  assume "obs_data_get_string s S_ALIGN \<noteq> S_ALIGN_CENTER \<and> obs_data_get_string s S_ALIGN \<noteq> S_ALIGN_RIGHT"
  then show "align (assign_settings e s st) = Align_Left"
    by (simp add: assign_settings_eq)
next
  assume "obs_data_get_string s S_VALIGN \<noteq> S_VALIGN_CENTER \<and> obs_data_get_string s S_VALIGN \<noteq> S_VALIGN_BOTTOM"
  then show "valign (assign_settings e s st) = VAlign_Top"
    by (simp add: assign_settings_eq)
next
  assume u: "Update e s st = Inr (st', calls)"
  show "align st' = align (assign_settings e s st)"
    by (rule Update_keeps(4) [OF u])
  show "valign st' = valign (assign_settings e s st)"
    by (rule Update_keeps(5) [OF u])
next
  show "isl (Update e ((S_ALIGN, Item_string a) # (S_VALIGN, Item_string v) # s) st) \<longleftrightarrow>
        isl (Update e s st)"
    by (rule Update_fault_override)
qed

theorem unrecognized_alignment_defaults_witness:
  "obs_data_get_string [(S_ALIGN, Item_string ''middle''), (S_VALIGN, Item_string ''baseline''),
                        (S_TEXT, Item_string ''Hi'')] S_ALIGN = ''middle'' \<and>
   obs_data_get_string [(S_ALIGN, Item_string ''middle''), (S_VALIGN, Item_string ''baseline''),
                        (S_TEXT, Item_string ''Hi'')] S_VALIGN = ''baseline'' \<and>
   Update sample_env [(S_ALIGN, Item_string ''middle''), (S_VALIGN, Item_string ''baseline''),
                      (S_TEXT, Item_string ''Hi'')] TextSource_new =
     Inr (sample_state, [Enter_graphics, Texture_create 32 32 (sample_bits 12), Leave_graphics]) \<and>
   align sample_state = Align_Left \<and> valign sample_state = VAlign_Top \<and>
   \<not> isl (Update sample_env [(S_TEXT, Item_string ''Hi'')] TextSource_new)"
proof -
  let ?s = "[(S_ALIGN, Item_string ''middle''), (S_VALIGN, Item_string ''baseline''),
             (S_TEXT, Item_string ''Hi'')]"
  let ?calls = "[Enter_graphics, Texture_create 32 32 (sample_bits 12), Leave_graphics]"
  have g: "obs_data_get_string ?s S_ALIGN = ''middle''" "obs_data_get_string ?s S_VALIGN = ''baseline''"
    by (simp_all add: obs_data_get_string_def)
  have u: "Update sample_env ?s TextSource_new = Inr (sample_state, ?calls)"
    by (simp add: eval_defs sample_defs)
  have a: "align (assign_settings sample_env ?s TextSource_new) = Align_Left \<and>
           valign (assign_settings sample_env ?s TextSource_new) = VAlign_Top \<and>
           align sample_state = align (assign_settings sample_env ?s TextSource_new) \<and>
           valign sample_state = valign (assign_settings sample_env ?s TextSource_new)"
    using unrecognized_alignment_defaults [where s = ?s and e = sample_env and st = TextSource_new
        and st' = sample_state and calls = ?calls] u
    by (simp add: g)
  have "isl (Update sample_env ?s TextSource_new) \<longleftrightarrow>
        isl (Update sample_env [(S_TEXT, Item_string ''Hi'')] TextSource_new)"
    using unrecognized_alignment_defaults [where s = "[(S_TEXT, Item_string ''Hi'')]"
        and e = sample_env and st = TextSource_new and a = "''middle''" and v = "''baseline''"]
    by simp
  with u have "\<not> isl (Update sample_env [(S_TEXT, Item_string ''Hi'')] TextSource_new)"
    by simp
  with a g u show ?thesis
    by simp
qed

subsection \<open>C9: extents are never configured\<close>

text \<open>C9: an update leaves \<open>use_extents\<close>, \<open>wrap\<close>, \<open>extents_cx\<close> and \<open>extents_cy\<close> as they
  were; so in every state reached from the constructor's state by updates they are
  false, false, 0 and 0, and the extents step of the layout changes nothing. The
  update reads its settings under thirteen keys only: two settings that agree on those
  give the same result.\<close>

theorem extents_never_configured:
  "(Update e s st = Inr (st', calls) \<longrightarrow>
      use_extents st' = use_extents st \<and> wrap st' = wrap st \<and>
      extents_cx st' = extents_cx st \<and> extents_cy st' = extents_cy st) \<and>
   (run_updates us TextSource_new = Inr st'' \<longrightarrow>
      \<not> use_extents st'' \<and> \<not> wrap st'' \<and> extents_cx st'' = 0 \<and> extents_cy st'' = 0 \<and>
      (\<forall>text_size. apply_extents st'' text_size = text_size)) \<and>
   ((\<forall>k \<in> set settings_keys. map_of s k = map_of s2 k) \<longrightarrow> Update e s st = Update e s2 st)"
proof (intro conjI impI)
  assume u: "Update e s st = Inr (st', calls)"
  show "use_extents st' = use_extents st" "wrap st' = wrap st"
    "extents_cx st' = extents_cx st" "extents_cy st' = extents_cy st"
    by (rule Update_keeps [OF u])+
next
  assume r: "run_updates us TextSource_new = Inr st''"
  from run_updates_extents [OF r]
  show e: "\<not> use_extents st''" and "\<not> wrap st''" and "extents_cx st'' = 0" and "extents_cy st'' = 0"
    by (simp_all add: TextSource_new_def)
  from e show "\<forall>text_size. apply_extents st'' text_size = text_size"
    by (simp add: apply_extents_def)
next
  assume "\<forall>k \<in> set settings_keys. map_of s k = map_of s2 k"
  then have "assign_settings e s st = assign_settings e s2 st"
    by (rule settings_agree)
  then show "Update e s st = Update e s2 st"
    by (simp add: Update_def)
qed

theorem extents_never_configured_witness:
  "run_updates
     [(sample_env, [(S_TEXT, Item_string ''Hi''), (''use_extents'', Item_bool True),
                    (''extents_wrap'', Item_bool True), (''extents_cx'', Item_int 640),
                    (''extents_cy'', Item_int 480)]),
      (sample_env, [(S_TEXT, Item_string ''Hi''), (S_FONT, Item_obj [(''size'', Item_int 50)])])]
     TextSource_new = Inr (sample_state\<lparr>face_size := 50, cy := 50\<rparr>) \<and>
   \<not> use_extents (sample_state\<lparr>face_size := 50, cy := 50\<rparr>) \<and>
   \<not> wrap (sample_state\<lparr>face_size := 50, cy := 50\<rparr>) \<and>
   extents_cx (sample_state\<lparr>face_size := 50, cy := 50\<rparr>) = 0 \<and>
   extents_cy (sample_state\<lparr>face_size := 50, cy := 50\<rparr>) = 0 \<and>
   Update sample_env [(S_TEXT, Item_string ''Hi''), (''use_extents'', Item_bool True),
                      (''extents_wrap'', Item_bool True), (''extents_cx'', Item_int 640),
                      (''extents_cy'', Item_int 480)] TextSource_new =
   Update sample_env [(S_TEXT, Item_string ''Hi'')] TextSource_new"
proof -
  let ?s = "[(S_TEXT, Item_string ''Hi''), (''use_extents'', Item_bool True),
             (''extents_wrap'', Item_bool True), (''extents_cx'', Item_int 640),
             (''extents_cy'', Item_int 480)]"
  let ?us = "[(sample_env, ?s),
      (sample_env, [(S_TEXT, Item_string ''Hi''), (S_FONT, Item_obj [(''size'', Item_int 50)])])]"
  have u1: "Update sample_env ?s TextSource_new =
      Inr (sample_state, [Enter_graphics, Texture_create 32 32 (sample_bits 12), Leave_graphics])"
    by (simp add: eval_defs sample_defs)
  have u2: "Update sample_env
      [(S_TEXT, Item_string ''Hi''), (S_FONT, Item_obj [(''size'', Item_int 50)])] sample_state =
      Inr (sample_state\<lparr>face_size := 50, cy := 50\<rparr>,
           [Enter_graphics, Texture_destroy 1, Texture_create 32 50 (sample_bits 50),
            Leave_graphics])"
    by (simp add: eval_defs sample_defs)
  have r: "run_updates ?us TextSource_new = Inr (sample_state\<lparr>face_size := 50, cy := 50\<rparr>)"
    by (simp add: u1 u2)
  have k: "\<forall>k \<in> set settings_keys. map_of ?s k = map_of [(S_TEXT, Item_string ''Hi'')] k"
    by (simp add: settings_keys_def)
  from extents_never_configured [where us = ?us and st'' = "sample_state\<lparr>face_size := 50, cy := 50\<rparr>"
      and s = ?s and ?s2.0 = "[(S_TEXT, Item_string ''Hi'')]" and e = sample_env
      and st = TextSource_new] r k
  show ?thesis
    by simp
qed

subsection \<open>C10: the stored size after RenderText\<close>

text \<open>C10: when \<open>RenderText\<close> returns, the stored \<open>cx\<close> and \<open>cy\<close>, which \<open>get_width\<close> and
  \<open>get_height\<close> report, are the canvas size it has just computed. This holds also when
  a texture had to be created and the creation failed: then no texture is retained,
  \<open>Render\<close> makes no call, and the reported size is the new one.\<close>

theorem stored_size_is_canvas_size:
  assumes "RenderText e st = Inr (st', calls)"
  shows "cx st' = size_cx (canvas_size e st) \<and> cy st' = size_cy (canvas_size e st) \<and>
         get_width st' = size_cx (canvas_size e st) \<and>
         get_height st' = size_cy (canvas_size e st) \<and>
         (tex st' = None \<longrightarrow> Render st' = []) \<and>
         ((tex st = None \<or> cx st \<noteq> size_cx (canvas_size e st) \<or>
           cy st \<noteq> size_cy (canvas_size e st)) \<and>
          (\<forall>bits. gs_texture_create e (size_cx (canvas_size e st))
                    (size_cy (canvas_size e st)) bits = None)
            \<longrightarrow> tex st' = None \<and> Render st' = [])"
proof -
  from RenderText_frame [OF assms] obtain t where
    "st' = st\<lparr>tex := t, cx := size_cx (canvas_size e st), cy := size_cy (canvas_size e st)\<rparr>" ..
  then have sz: "cx st' = size_cx (canvas_size e st)" "cy st' = size_cy (canvas_size e st)"
    by simp_all
  have none: "tex st' = None \<Longrightarrow> Render st' = []"
    by (simp add: Render_def)
  have "tex st' = None"
    if "tex st = None \<or> cx st \<noteq> size_cx (canvas_size e st) \<or> cy st \<noteq> size_cy (canvas_size e st)"
      and "\<forall>bits. gs_texture_create e (size_cx (canvas_size e st)) (size_cy (canvas_size e st)) bits = None"
    using RenderText_create [OF assms that(1)] that(2) by auto
  with sz none show ?thesis
    by (simp add: get_width_def get_height_def)
qed

theorem stored_size_is_canvas_size_witness:
  "RenderText (sample_env\<lparr>gs_texture_create := (\<lambda>w h bits. None)\<rparr>)
     (TextSource_new\<lparr>text := [0x48, 0x69], face_size := 40\<rparr>) =
   Inr (TextSource_new\<lparr>text := [0x48, 0x69], face_size := 40, cx := 32, cy := 40\<rparr>,
        [Enter_graphics,
         Texture_create 32 40
           [Clear 0, FillRectangle 0 \<lparr>X = 0, Y = 0, Width = 14, Height = 40\<rparr>,
            DrawString [0x48, 0x69, 0x0A] 3 None \<lparr>X = 0, Y = 0, Width = 14, Height = 40\<rparr>
              \<lparr>FormatFlags = {StringFormatFlagsNoFitBlackBox,
                              StringFormatFlagsMeasureTrailingSpaces},
                 Trimming = StringTrimmingWord, Alignment = StringAlignmentNear,
                 LineAlignment = StringAlignmentNear\<rparr>
              0xFFFFFFFF],
         Leave_graphics]) \<and>
   get_width (TextSource_new\<lparr>text := [0x48, 0x69], face_size := 40, cx := 32, cy := 40\<rparr>) = 32 \<and>
   get_height (TextSource_new\<lparr>text := [0x48, 0x69], face_size := 40, cx := 32, cy := 40\<rparr>) = 40 \<and>
   Render (TextSource_new\<lparr>text := [0x48, 0x69], face_size := 40, cx := 32, cy := 40\<rparr>) = []"
proof -
  let ?e = "sample_env\<lparr>gs_texture_create := (\<lambda>w h bits. None)\<rparr>"
  let ?st = "TextSource_new\<lparr>text := [0x48, 0x69], face_size := 40\<rparr>"
  let ?st' = "TextSource_new\<lparr>text := [0x48, 0x69], face_size := 40, cx := 32, cy := 40\<rparr>"
  have r: "RenderText ?e ?st =
     Inr (?st',
        [Enter_graphics,
         Texture_create 32 40
           [Clear 0, FillRectangle 0 \<lparr>X = 0, Y = 0, Width = 14, Height = 40\<rparr>,
            DrawString [0x48, 0x69, 0x0A] 3 None \<lparr>X = 0, Y = 0, Width = 14, Height = 40\<rparr>
              \<lparr>FormatFlags = {StringFormatFlagsNoFitBlackBox,
                              StringFormatFlagsMeasureTrailingSpaces},
                 Trimming = StringTrimmingWord, Alignment = StringAlignmentNear,
                 LineAlignment = StringAlignmentNear\<rparr>
              0xFFFFFFFF],
         Leave_graphics])"
    by (simp add: eval_defs)
  have c: "canvas_size ?e ?st = \<lparr>size_cx = 32, size_cy = 40\<rparr>"
    by (simp add: canvas_size_def eval_defs)
  have t: "tex ?st = None" "\<forall>bits. gs_texture_create ?e 32 40 bits = None"
    by (simp_all add: TextSource_new_def)
  from stored_size_is_canvas_size [OF r] t
  have "get_width ?st' = 32 \<and> get_height ?st' = 40 \<and> Render ?st' = []"
    unfolding c by simp
  with r show ?thesis by simp
qed

end
